theory Spec2Isabelle
  imports Complex_Main
begin

section \<open>Data model of the localization stage\<close>

text \<open>
  The embedding follows \<^verbatim>\<open>TrafficManager/source/pipeline/LocalizationStage.cpp\<close>.

  \<^item> A \<^verbatim>\<open>SimpleWaypointPtr\<close> is a reference into the immutable road graph; it is
    modelled by a stable identifier (a natural number). The methods of the waypoint
    class live outside this file and are parameters of the embedding (record \<open>env\<close>).
  \<^item> A \<^verbatim>\<open>Buffer\<close> (\<^verbatim>\<open>std::deque<SimpleWaypointPtr>\<close>) is a list, front first.
  \<^item> A \<^verbatim>\<open>float\<close> is a real number, the value of a finite binary32 number. Where a float
    operation of the file rounds, the model rounds with \<open>binary32\<close> (to nearest, ties to
    even): the product of line 84, the quotient of line 11 and the difference of line
    180. Comparisons, \<^verbatim>\<open>std::max\<close>, \<^verbatim>\<open>std::ceil\<close>, the product by 2 and the squares
    (\<^verbatim>\<open>std::pow(x, 2)\<close> computes in double precision) are exact; the product by \<^verbatim>\<open>0.5f\<close> is
    exact wherever it is above the floor of 2 that \<^verbatim>\<open>std::max\<close> applies to it.
    Infinities and NaN are not modelled. A product beyond the largest binary32 number is
    \<^verbatim>\<open>+inf\<close> in the program; here it is rounded with no bound on the exponent, and the
    square of such a bound exceeds every finite binary32 distance, as \<^verbatim>\<open>+inf\<close> does.
  \<^item> \<^verbatim>\<open>uint\<close> loop counters are natural numbers. The counter of \<^verbatim>\<open>Action\<close> is checked
    by \<^verbatim>\<open>actor_list.at(i)\<close> before anything else is done with it, and the counters of the
    walks stay below the size of the buffer, so a counter wraps at \<open>2 ^ 32\<close> only with a
    container of \<open>2 ^ 32\<close> elements.
  \<^item> The traffic distributor and the messengers are called in sequence: what other
    threads do to them between two calls is not modelled. \<^verbatim>\<open>AssignLaneChange\<close> reads the
    buffer list it is given and returns a waypoint or \<^verbatim>\<open>nullptr\<close> (\<open>None\<close>).
  \<^item> \<^verbatim>\<open>at()\<close> on a vector or deque raises \<^verbatim>\<open>std::out_of_range\<close>; nothing in the file
    catches it, so it ends the run: the error value \<open>OutOfRange\<close>.
  \<^item> The growth loop has no bound of its own: it is a partial function in the option
    monad, \<open>None\<close> being a loop that never ends.
\<close>

type_synonym waypoint = nat
type_synonym buffer = "waypoint list"
type_synonym buffer_list = "buffer list"

record location =
  loc_x :: real
  loc_y :: real
  loc_z :: real

text \<open>What \<^verbatim>\<open>Action\<close> reads of an actor: \<^verbatim>\<open>GetId()\<close>, \<^verbatim>\<open>GetLocation()\<close>,
  \<^verbatim>\<open>GetVelocity().Length()\<close> and \<^verbatim>\<open>GetSpeedLimit()\<close>.\<close>

record vehicle =
  actor_id :: nat
  vehicle_location :: location
  vehicle_velocity :: real
  speed_limit :: real

record geo_ids =
  road_id :: nat
  section_id :: nat
  lane_id :: int

datatype error = OutOfRange | EmptyContainer

datatype frame_ref = FrameA | FrameB

datatype buffer_ref = InBufferListA nat | InBufferListB nat

record planner_data =
  planner_actor :: vehicle
  deviation :: real
  approaching_true_junction :: bool

record collision_data =
  collision_actor :: vehicle
  collision_buffer :: buffer_ref

record traffic_light_data =
  traffic_light_actor :: vehicle
  closest_waypoint :: waypoint
  junction_look_ahead_waypoint :: waypoint

record data_packet =
  packet_id :: int
  packet_data :: frame_ref

text \<open>
  The collaborators of the stage whose code is outside the file: the waypoint class,
  the geometry helpers, the in-memory map, \<^verbatim>\<open>rand()\<close> (the value of its \<open>n\<close>-th call),
  the traffic distributor (its state is \<open>'td\<close>), the vehicle list and the messenger
  class (a messenger is a value of \<open>'ch\<close>).
\<close>

record ('td, 'ch) env =
  GetLocation :: "waypoint \<Rightarrow> location"
  GetRoadId :: "waypoint \<Rightarrow> nat"
  GetSectionId :: "waypoint \<Rightarrow> nat"
  GetLaneId :: "waypoint \<Rightarrow> int"
  CheckJunction :: "waypoint \<Rightarrow> bool"
  GetNextWaypoint :: "waypoint \<Rightarrow> waypoint list"
  DistanceSquared :: "waypoint \<Rightarrow> waypoint \<Rightarrow> real"
  DeviationDotProduct :: "vehicle \<Rightarrow> location \<Rightarrow> real"
  DeviationCrossProduct :: "vehicle \<Rightarrow> location \<Rightarrow> real"
  GetWaypoint :: "location \<Rightarrow> waypoint"
  rand :: "nat \<Rightarrow> nat"
  UpdateVehicleRoadPosition :: "'td \<Rightarrow> nat \<Rightarrow> geo_ids \<Rightarrow> 'td"
  AssignLaneChange :: "'td \<Rightarrow> vehicle \<Rightarrow> waypoint \<Rightarrow> geo_ids \<Rightarrow> buffer_list
    \<Rightarrow> (nat \<Rightarrow> nat option) \<Rightarrow> vehicle list \<Rightarrow> 'td \<times> waypoint option"
  actor_list :: "vehicle list"
  vehicle_id_to_index :: "nat \<Rightarrow> nat option"
  GetState :: "'ch \<Rightarrow> int"
  SendData :: "'ch \<Rightarrow> data_packet \<Rightarrow> 'ch \<times> int"

text \<open>The members of \<^verbatim>\<open>LocalizationStage\<close> that \<^verbatim>\<open>Action\<close> and \<^verbatim>\<open>DataSender\<close> change,
  and the number of \<^verbatim>\<open>rand()\<close> calls made so far.\<close>

record ('td, 'ch) stage =
  planner_frame_selector :: bool
  collision_frame_selector :: bool
  traffic_light_frame_selector :: bool
  buffer_list_a :: buffer_list
  buffer_list_b :: buffer_list
  planner_frame_a :: "planner_data list"
  planner_frame_b :: "planner_data list"
  collision_frame_a :: "collision_data list"
  collision_frame_b :: "collision_data list"
  traffic_light_frame_a :: "traffic_light_data list"
  traffic_light_frame_b :: "traffic_light_data list"
  planner_messenger_state :: int
  collision_messenger_state :: int
  traffic_light_messenger_state :: int
  planner_messenger :: 'ch
  collision_messenger :: 'ch
  traffic_light_messenger :: 'ch
  traffic_distributor :: 'td
  rand_calls :: nat

section \<open>Rounding to binary32\<close>

text \<open>The integer nearest to a real number, the even one of two that are equally near.\<close>

definition round_half_even :: "real \<Rightarrow> int" where
  "round_half_even x =
     (let n = \<lfloor>x\<rfloor>; r = x - of_int n
      in if r < 1 / 2 then n else if 1 / 2 < r then n + 1 else if even n then n else n + 1)"

text \<open>The binary32 number nearest to a real number: 24 significant bits, so the unit
  in the last place of \<open>x\<close> is \<open>2\<close> to the power \<open>\<lfloor>log\<^sub>2 \<bar>x\<bar>\<rfloor> - 23\<close>, and \<open>2\<close> to the power \<open>- 149\<close>
  below the least normal number.\<close>

definition binary32 :: "real \<Rightarrow> real" where
  "binary32 x =
     (if x = 0 then 0
      else let e = max \<lfloor>log 2 \<bar>x\<bar>\<rfloor> (- 126); ulp = 2 powi (e - 23)
           in of_int (round_half_even (x / ulp)) * ulp)"

section \<open>Constants\<close>

text \<open>Lines 6 to 11. The first five are binary32 numbers as written; \<^verbatim>\<open>50 / 3.6f\<close> is the
  float quotient of 50 by the float nearest to 3.6.\<close>

definition WAYPOINT_TIME_HORIZON :: real where
  "WAYPOINT_TIME_HORIZON = 3"

definition MINIMUM_HORIZON_LENGTH :: real where
  "MINIMUM_HORIZON_LENGTH = 25"

definition TARGET_WAYPOINT_TIME_HORIZON :: real where
  "TARGET_WAYPOINT_TIME_HORIZON = 0.5"

definition TARGET_WAYPOINT_HORIZON_LENGTH :: real where
  "TARGET_WAYPOINT_HORIZON_LENGTH = 2"

definition MINIMUM_JUNCTION_LOOK_AHEAD :: real where
  "MINIMUM_JUNCTION_LOOK_AHEAD = 3"

definition HIGHWAY_SPEED :: real where
  "HIGHWAY_SPEED = binary32 (50 / binary32 3.6)"

section \<open>The steps of Action, one vehicle\<close>

text \<open>\<^verbatim>\<open>at(i)\<close> of \<^verbatim>\<open>std::vector\<close> and \<^verbatim>\<open>std::deque\<close>.\<close>

definition at_index :: "'a list \<Rightarrow> nat \<Rightarrow> error + 'a" where
  "at_index xs i = (if i < length xs then Inr (xs ! i) else Inl OutOfRange)"

text \<open>Lines 83 to 85: the float product, then \<^verbatim>\<open>std::max\<close>.\<close>

definition horizon_size :: "real \<Rightarrow> real" where
  "horizon_size velocity =
     max (binary32 (WAYPOINT_TIME_HORIZON * velocity)) MINIMUM_HORIZON_LENGTH"

definition target_point_distance :: "real \<Rightarrow> real" where
  "target_point_distance velocity =
     max (of_int \<lceil>velocity * TARGET_WAYPOINT_TIME_HORIZON\<rceil>) TARGET_WAYPOINT_HORIZON_LENGTH"

definition look_ahead_distance :: "real \<Rightarrow> real" where
  "look_ahead_distance velocity = max (2 * velocity) MINIMUM_JUNCTION_LOOK_AHEAD"

definition front_geo_ids :: "('td, 'ch) env \<Rightarrow> waypoint \<Rightarrow> geo_ids" where
  "front_geo_ids env w =
     \<lparr>road_id = GetRoadId env w, section_id = GetSectionId env w, lane_id = GetLaneId env w\<rparr>"

text \<open>The signed deviation of a buffer entry: the raw value of \<^verbatim>\<open>DeviationDotProduct\<close>
  between the vehicle and the location of the waypoint (lines 106 and 111).\<close>

definition signed_deviation :: "('td, 'ch) env \<Rightarrow> vehicle \<Rightarrow> waypoint \<Rightarrow> real" where
  "signed_deviation env v w = DeviationDotProduct env v (GetLocation env w)"

text \<open>Lines 90 to 101: synchronizing buffer copies in case the path of the vehicle has
  changed. \<open>wb\<close> is \<^verbatim>\<open>waypoint_buffer\<close>, \<open>cb\<close> is \<^verbatim>\<open>copy_waypoint_buffer\<close>.\<close>

definition synchronize_buffer :: "('td, 'ch) env \<Rightarrow> buffer \<Rightarrow> buffer \<Rightarrow> buffer" where
  "synchronize_buffer env wb cb =
     (if wb \<noteq> [] \<and> cb \<noteq> [] \<and>
         (GetLaneId env (hd cb) \<noteq> GetLaneId env (hd wb) \<or>
          GetSectionId env (hd cb) \<noteq> GetSectionId env (hd wb) \<or>
          GetRoadId env (hd cb) \<noteq> GetRoadId env (hd wb))
      then cb else wb)"

text \<open>Lines 103 to 114: purge passed waypoints. The loop keeps \<^verbatim>\<open>dot_product\<close> of the
  current front; after the pop that empties the buffer it keeps the old value.\<close>

fun purge_loop :: "('td, 'ch) env \<Rightarrow> vehicle \<Rightarrow> real \<Rightarrow> buffer \<Rightarrow> buffer" where
  "purge_loop env v dot_product [] = []"
| "purge_loop env v dot_product (w # ws) =
     (if dot_product \<le> 0
      then (case ws of
              [] \<Rightarrow> purge_loop env v dot_product ws
            | w' # _ \<Rightarrow> purge_loop env v (DeviationDotProduct env v (GetLocation env w')) ws)
      else w # ws)"

definition purge_passed_waypoints :: "('td, 'ch) env \<Rightarrow> vehicle \<Rightarrow> buffer \<Rightarrow> buffer" where
  "purge_passed_waypoints env v wb =
     (if wb \<noteq> []
      then purge_loop env v (DeviationDotProduct env v (GetLocation env (hd wb))) wb
      else wb)"

text \<open>Lines 116 to 120: initializing the buffer if it is empty.\<close>

definition initialize_buffer :: "('td, 'ch) env \<Rightarrow> vehicle \<Rightarrow> buffer \<Rightarrow> buffer" where
  "initialize_buffer env v wb =
     (if wb = [] then wb @ [GetWaypoint env (vehicle_location v)] else wb)"

text \<open>Lines 122 to 148: assign a lane change. \<open>cur\<close> is \<^verbatim>\<open>current_buffer_list\<close> as the
  distributor sees it when it is called. \<^verbatim>\<open>front()\<close> of an empty deque is undefined;
  the step is only reached after \<open>initialize_buffer\<close>, and the empty case is an error
  value here.\<close>

definition assign_lane_change ::
  "('td, 'ch) env \<Rightarrow> 'td \<Rightarrow> vehicle \<Rightarrow> buffer_list \<Rightarrow> buffer \<Rightarrow> error + 'td \<times> buffer" where
  "assign_lane_change env td v cur wb =
     (if wb = [] then Inl EmptyContainer
      else
        let front_waypoint = hd wb;
            current_road_ids = front_geo_ids env front_waypoint;
            td1 = UpdateVehicleRoadPosition env td (actor_id v) current_road_ids
        in if \<not> CheckJunction env front_waypoint
           then (case AssignLaneChange env td1 v front_waypoint current_road_ids cur
                        (vehicle_id_to_index env) (actor_list env) of
                   (td2, None) \<Rightarrow> Inr (td2, wb)
                 | (td2, Some change_over_point) \<Rightarrow> Inr (td2, [] @ [change_over_point]))
           else Inr (td1, wb))"

text \<open>Lines 157 to 161: pseudo-randomized path selection if found more than one choice.
  \<open>rc\<close> counts the calls of \<^verbatim>\<open>rand()\<close>; the result is \<^verbatim>\<open>selection_index\<close> and the new
  count.\<close>

definition path_selection :: "('td, 'ch) env \<Rightarrow> waypoint list \<Rightarrow> nat \<Rightarrow> nat \<times> nat" where
  "path_selection env next_waypoints rc =
     (if length next_waypoints > 1
      then (rand env rc mod length next_waypoints, Suc rc)
      else (0, rc))"

text \<open>Lines 150 to 164: populating the buffer. The unused local
  \<^verbatim>\<open>pre_selection_id\<close> is left out. \<^verbatim>\<open>back()\<close> of an empty deque is undefined; the loop
  is only reached with a buffer that is not empty, and the empty case is an error value
  here.\<close>

partial_function (option) populate_buffer ::
  "('td, 'ch) env \<Rightarrow> real \<Rightarrow> buffer \<Rightarrow> nat \<Rightarrow> (error + buffer \<times> nat) option" where
  "populate_buffer env horizon wb rc =
     (if wb = [] then Some (Inl EmptyContainer)
      else if DistanceSquared env (last wb) (hd wb) \<le> horizon ^ 2
      then
        (let next_waypoints = GetNextWaypoint env (last wb);
             selection = path_selection env next_waypoints rc
         in case at_index next_waypoints (fst selection) of
              Inl e \<Rightarrow> Some (Inl e)
            | Inr w \<Rightarrow> populate_buffer env horizon (wb @ [w]) (snd selection))
      else Some (Inr (wb, rc)))"

text \<open>Lines 166 to 176: the steering target.\<close>

function target_loop ::
  "('td, 'ch) env \<Rightarrow> buffer \<Rightarrow> real \<Rightarrow> nat \<Rightarrow> waypoint \<Rightarrow> error + waypoint" where
  "target_loop env wb d i target_waypoint =
     (if i < length wb \<and> DistanceSquared env (hd wb) target_waypoint < d ^ 2
      then (case at_index wb i of
              Inl e \<Rightarrow> Inl e
            | Inr w \<Rightarrow> target_loop env wb d (Suc i) w)
      else Inr target_waypoint)"
  by pat_completeness auto
termination
  by (relation "measure (\<lambda>(env, wb, d, i, t). length wb - i)") auto

definition select_target :: "('td, 'ch) env \<Rightarrow> real \<Rightarrow> buffer \<Rightarrow> error + waypoint" where
  "select_target env velocity wb =
     (if wb = [] then Inl EmptyContainer
      else target_loop env wb (target_point_distance velocity) 0 (hd wb))"

text \<open>The target as the specification words it, for comparison with \<open>select_target\<close>:
  the last buffer entry whose squared distance from the front is below the square of
  \<open>target_point_distance\<close>.\<close>

definition last_entry_below_threshold :: "('td, 'ch) env \<Rightarrow> real \<Rightarrow> buffer \<Rightarrow> waypoint" where
  "last_entry_below_threshold env velocity wb =
     last (filter (\<lambda>w. DistanceSquared env (hd wb) w < (target_point_distance velocity) ^ 2) wb)"

text \<open>Lines 177 to 183: the deviation sent to the planner.\<close>

definition output_deviation :: "('td, 'ch) env \<Rightarrow> vehicle \<Rightarrow> waypoint \<Rightarrow> real" where
  "output_deviation env v target_waypoint =
     (let target_location = GetLocation env target_waypoint;
          dot_product = DeviationDotProduct env v target_location;
          cross_product = DeviationCrossProduct env v target_location;
          dot_product = binary32 (1 - dot_product)
      in if cross_product < 0 then dot_product * (- 1) else dot_product)"

text \<open>Lines 190 to 201: the junction look-ahead walk; the result is
  \<^verbatim>\<open>look_ahead_point\<close> with \<^verbatim>\<open>look_ahead_index\<close>.\<close>

function look_ahead_loop ::
  "('td, 'ch) env \<Rightarrow> buffer \<Rightarrow> real \<Rightarrow> nat \<Rightarrow> waypoint \<times> nat \<Rightarrow> error + waypoint \<times> nat" where
  "look_ahead_loop env wb d i (look_ahead_point, look_ahead_index) =
     (if DistanceSquared env (hd wb) look_ahead_point < d ^ 2 \<and> i < length wb
      then (case at_index wb i of
              Inl e \<Rightarrow> Inl e
            | Inr w \<Rightarrow> look_ahead_loop env wb d (Suc i) (w, i))
      else Inr (look_ahead_point, look_ahead_index))"
  by pat_completeness auto
termination
  by (relation "measure (\<lambda>(env, wb, d, i, p). length wb - i)") auto

definition look_ahead :: "('td, 'ch) env \<Rightarrow> real \<Rightarrow> buffer \<Rightarrow> error + waypoint \<times> nat" where
  "look_ahead env velocity wb =
     (if wb = [] then Inl EmptyContainer
      else look_ahead_loop env wb (look_ahead_distance velocity) 0 (hd wb, 0))"

text \<open>Lines 203 to 215: filtering out false junctions on highways.\<close>

function junction_loop ::
  "('td, 'ch) env \<Rightarrow> buffer \<Rightarrow> nat \<Rightarrow> nat \<Rightarrow> bool \<Rightarrow> error + bool" where
  "junction_loop env wb look_ahead_index i approaching_junction =
     (if i < look_ahead_index \<and> \<not> approaching_junction
      then (case at_index wb i of
              Inl e \<Rightarrow> Inl e
            | Inr swp \<Rightarrow>
                junction_loop env wb look_ahead_index (Suc i)
                  (if length (GetNextWaypoint env swp) > 1 then True else approaching_junction))
      else Inr approaching_junction)"
  by pat_completeness auto
termination
  by (relation "measure (\<lambda>(env, wb, k, i, a). k - i)") auto

definition approaching_junction ::
  "('td, 'ch) env \<Rightarrow> vehicle \<Rightarrow> buffer \<Rightarrow> waypoint \<Rightarrow> nat \<Rightarrow> error + bool" where
  "approaching_junction env v wb look_ahead_point look_ahead_index =
     (if wb = [] then Inl EmptyContainer
      else if CheckJunction env look_ahead_point \<and> \<not> CheckJunction env (hd wb)
      then (if speed_limit v > HIGHWAY_SPEED
            then junction_loop env wb look_ahead_index 0 False
            else Inr True)
      else Inr False)"

text \<open>Lines 87 to 164 for one vehicle: the buffer of the vehicle in
  \<^verbatim>\<open>current_buffer_list\<close> (\<open>cur\<close>) after the maintenance steps, read against its buffer
  in \<^verbatim>\<open>copy_buffer_list\<close> (\<open>cpy\<close>).\<close>

definition update_buffer ::
  "('td, 'ch) env \<Rightarrow> vehicle \<Rightarrow> nat \<Rightarrow> buffer_list \<Rightarrow> buffer_list \<Rightarrow> 'td \<Rightarrow> nat
     \<Rightarrow> (error + buffer \<times> 'td \<times> nat) option" where
  "update_buffer env v i cur cpy td rc =
     (case at_index cur i of
        Inl e \<Rightarrow> Some (Inl e)
      | Inr waypoint_buffer \<Rightarrow>
     (case at_index cpy i of
        Inl e \<Rightarrow> Some (Inl e)
      | Inr copy_waypoint_buffer \<Rightarrow>
     (let wb1 = synchronize_buffer env waypoint_buffer copy_waypoint_buffer;
          wb2 = purge_passed_waypoints env v wb1;
          wb3 = initialize_buffer env v wb2
      in case assign_lane_change env td v (cur[i := wb3]) wb3 of
           Inl e \<Rightarrow> Some (Inl e)
         | Inr (td', wb4) \<Rightarrow>
        (case populate_buffer env (horizon_size (vehicle_velocity v)) wb4 rc of
           None \<Rightarrow> None
         | Some (Inl e) \<Rightarrow> Some (Inl e)
         | Some (Inr (wb5, rc')) \<Rightarrow> Some (Inr (wb5, td', rc'))))))"

text \<open>Lines 166 to 215: the deviation, the junction flag and \<^verbatim>\<open>look_ahead_index\<close>.\<close>

definition generate_output ::
  "('td, 'ch) env \<Rightarrow> vehicle \<Rightarrow> buffer \<Rightarrow> error + real \<times> bool \<times> nat" where
  "generate_output env v wb =
     (case select_target env (vehicle_velocity v) wb of
        Inl e \<Rightarrow> Inl e
      | Inr target_waypoint \<Rightarrow>
     (case look_ahead env (vehicle_velocity v) wb of
        Inl e \<Rightarrow> Inl e
      | Inr (look_ahead_point, look_ahead_index) \<Rightarrow>
     (case approaching_junction env v wb look_ahead_point look_ahead_index of
        Inl e \<Rightarrow> Inl e
      | Inr flag \<Rightarrow> Inr (output_deviation env v target_waypoint, flag, look_ahead_index))))"

section \<open>Action\<close>

text \<open>Lines 66 to 72: the frames and buffer lists the selectors choose.\<close>

definition current_buffer_list :: "('td, 'ch) stage \<Rightarrow> buffer_list" where
  "current_buffer_list st =
     (if collision_frame_selector st then buffer_list_a st else buffer_list_b st)"

definition copy_buffer_list :: "('td, 'ch) stage \<Rightarrow> buffer_list" where
  "copy_buffer_list st =
     (if \<not> collision_frame_selector st then buffer_list_a st else buffer_list_b st)"

definition current_buffer_ref :: "('td, 'ch) stage \<Rightarrow> nat \<Rightarrow> buffer_ref" where
  "current_buffer_ref st i =
     (if collision_frame_selector st then InBufferListA i else InBufferListB i)"

definition current_planner_frame :: "('td, 'ch) stage \<Rightarrow> planner_data list" where
  "current_planner_frame st =
     (if planner_frame_selector st then planner_frame_a st else planner_frame_b st)"

definition current_collision_frame :: "('td, 'ch) stage \<Rightarrow> collision_data list" where
  "current_collision_frame st =
     (if collision_frame_selector st then collision_frame_a st else collision_frame_b st)"

definition current_traffic_light_frame :: "('td, 'ch) stage \<Rightarrow> traffic_light_data list" where
  "current_traffic_light_frame st =
     (if traffic_light_frame_selector st then traffic_light_frame_a st
      else traffic_light_frame_b st)"

text \<open>Writes through the selected references.\<close>

definition store_buffer :: "nat \<Rightarrow> buffer \<Rightarrow> ('td, 'ch) stage \<Rightarrow> ('td, 'ch) stage" where
  "store_buffer i wb st =
     (if collision_frame_selector st
      then st\<lparr>buffer_list_a := (buffer_list_a st)[i := wb]\<rparr>
      else st\<lparr>buffer_list_b := (buffer_list_b st)[i := wb]\<rparr>)"

definition store_planner_data ::
  "nat \<Rightarrow> planner_data \<Rightarrow> ('td, 'ch) stage \<Rightarrow> ('td, 'ch) stage" where
  "store_planner_data i m st =
     (if planner_frame_selector st
      then st\<lparr>planner_frame_a := (planner_frame_a st)[i := m]\<rparr>
      else st\<lparr>planner_frame_b := (planner_frame_b st)[i := m]\<rparr>)"

definition store_collision_data ::
  "nat \<Rightarrow> collision_data \<Rightarrow> ('td, 'ch) stage \<Rightarrow> ('td, 'ch) stage" where
  "store_collision_data i m st =
     (if collision_frame_selector st
      then st\<lparr>collision_frame_a := (collision_frame_a st)[i := m]\<rparr>
      else st\<lparr>collision_frame_b := (collision_frame_b st)[i := m]\<rparr>)"

definition store_traffic_light_data ::
  "nat \<Rightarrow> traffic_light_data \<Rightarrow> ('td, 'ch) stage \<Rightarrow> ('td, 'ch) stage" where
  "store_traffic_light_data i m st =
     (if traffic_light_frame_selector st
      then st\<lparr>traffic_light_frame_a := (traffic_light_frame_a st)[i := m]\<rparr>
      else st\<lparr>traffic_light_frame_b := (traffic_light_frame_b st)[i := m]\<rparr>)"

text \<open>Lines 217 to 230: editing the output frames.\<close>

definition edit_output_frames ::
  "vehicle \<Rightarrow> nat \<Rightarrow> buffer \<Rightarrow> real \<Rightarrow> bool \<Rightarrow> nat \<Rightarrow> ('td, 'ch) stage
     \<Rightarrow> error + ('td, 'ch) stage" where
  "edit_output_frames v i wb dot_product flag look_ahead_index st =
     (case at_index (current_planner_frame st) i of
        Inl e \<Rightarrow> Inl e
      | Inr _ \<Rightarrow>
     (case at_index (current_collision_frame st) i of
        Inl e \<Rightarrow> Inl e
      | Inr _ \<Rightarrow>
     (case at_index (current_traffic_light_frame st) i of
        Inl e \<Rightarrow> Inl e
      | Inr _ \<Rightarrow>
     (case at_index wb look_ahead_index of
        Inl e \<Rightarrow> Inl e
      | Inr look_ahead_waypoint \<Rightarrow>
          Inr (store_traffic_light_data i
                 \<lparr>traffic_light_actor = v, closest_waypoint = hd wb,
                  junction_look_ahead_waypoint = look_ahead_waypoint\<rparr>
              (store_collision_data i
                 \<lparr>collision_actor = v, collision_buffer = current_buffer_ref st i\<rparr>
              (store_planner_data i
                 \<lparr>planner_actor = v, deviation = dot_product,
                  approaching_true_junction = flag\<rparr> st)))))))"

text \<open>The body of the loop of \<^verbatim>\<open>Action\<close> (lines 77 to 230) for the index \<open>i\<close>.\<close>

definition process_vehicle ::
  "('td, 'ch) env \<Rightarrow> nat \<Rightarrow> ('td, 'ch) stage \<Rightarrow> (error + ('td, 'ch) stage) option" where
  "process_vehicle env i st =
     (case at_index (actor_list env) i of
        Inl e \<Rightarrow> Some (Inl e)
      | Inr v \<Rightarrow>
     (case update_buffer env v i (current_buffer_list st) (copy_buffer_list st)
             (traffic_distributor st) (rand_calls st) of
        None \<Rightarrow> None
      | Some (Inl e) \<Rightarrow> Some (Inl e)
      | Some (Inr (wb, td, rc)) \<Rightarrow>
     (case generate_output env v wb of
        Inl e \<Rightarrow> Some (Inl e)
      | Inr (dot_product, flag, look_ahead_index) \<Rightarrow>
          Some (edit_output_frames v i wb dot_product flag look_ahead_index
                  (store_buffer i wb (st\<lparr>traffic_distributor := td, rand_calls := rc\<rparr>))))))"

function action_loop ::
  "('td, 'ch) env \<Rightarrow> nat \<Rightarrow> nat \<Rightarrow> ('td, 'ch) stage \<Rightarrow> (error + ('td, 'ch) stage) option" where
  "action_loop env i end_index st =
     (if i \<le> end_index
      then (case process_vehicle env i st of
              None \<Rightarrow> None
            | Some (Inl e) \<Rightarrow> Some (Inl e)
            | Some (Inr st') \<Rightarrow> action_loop env (Suc i) end_index st')
      else Some (Inr st))"
  by pat_completeness auto
termination
  by (relation "measure (\<lambda>(env, i, end_index, st). Suc end_index - i)") auto

definition Action ::
  "('td, 'ch) env \<Rightarrow> nat \<Rightarrow> nat \<Rightarrow> ('td, 'ch) stage \<Rightarrow> (error + ('td, 'ch) stage) option" where
  "Action env start_index end_index st = action_loop env start_index end_index st"

section \<open>DataSender\<close>

text \<open>Lines 243 to 248: the planner messenger, sent to on every call.\<close>

definition send_planner :: "('td, 'ch) env \<Rightarrow> ('td, 'ch) stage \<Rightarrow> ('td, 'ch) stage" where
  "send_planner env st =
     (let planner_data_packet =
            \<lparr>packet_id = planner_messenger_state st,
             packet_data = (if planner_frame_selector st then FrameA else FrameB)\<rparr>;
          sent = SendData env (planner_messenger st) planner_data_packet
      in st\<lparr>planner_frame_selector := \<not> planner_frame_selector st,
            planner_messenger := fst sent,
            planner_messenger_state := snd sent\<rparr>)"

text \<open>Lines 250 to 261: the collision messenger.\<close>

definition send_collision :: "('td, 'ch) env \<Rightarrow> ('td, 'ch) stage \<Rightarrow> ('td, 'ch) stage" where
  "send_collision env st =
     (let collision_messenger_current_state = GetState env (collision_messenger st)
      in if collision_messenger_current_state \<noteq> collision_messenger_state st
         then
           (let collision_data_packet =
                  \<lparr>packet_id = collision_messenger_state st,
                   packet_data = (if collision_frame_selector st then FrameA else FrameB)\<rparr>;
                sent = SendData env (collision_messenger st) collision_data_packet
            in st\<lparr>collision_messenger := fst sent,
                  collision_messenger_state := snd sent,
                  collision_frame_selector := \<not> collision_frame_selector st\<rparr>)
         else st)"

text \<open>Lines 263 to 274: the traffic light messenger.\<close>

definition send_traffic_light :: "('td, 'ch) env \<Rightarrow> ('td, 'ch) stage \<Rightarrow> ('td, 'ch) stage" where
  "send_traffic_light env st =
     (let traffic_light_messenger_current_state = GetState env (traffic_light_messenger st)
      in if traffic_light_messenger_current_state \<noteq> traffic_light_messenger_state st
         then
           (let traffic_light_data_packet =
                  \<lparr>packet_id = traffic_light_messenger_state st,
                   packet_data = (if traffic_light_frame_selector st then FrameA else FrameB)\<rparr>;
                sent = SendData env (traffic_light_messenger st) traffic_light_data_packet
            in st\<lparr>traffic_light_messenger := fst sent,
                  traffic_light_messenger_state := snd sent,
                  traffic_light_frame_selector := \<not> traffic_light_frame_selector st\<rparr>)
         else st)"

definition DataSender :: "('td, 'ch) env \<Rightarrow> ('td, 'ch) stage \<Rightarrow> ('td, 'ch) stage" where
  "DataSender env st = send_traffic_light env (send_collision env (send_planner env st))"

section \<open>Example worlds\<close>

text \<open>
  Concrete collaborators on which the definitions run: waypoints on a line, \<open>spacing\<close>
  apart, with the successors and the junction flags given; a map that gives the last
  waypoint at or before a location; a vehicle on that line; a distributor that never
  changes lane; a messenger that counts its deliveries and keeps
  the payloads it was sent.
\<close>

type_synonym demo_messenger = "int \<times> frame_ref list"

definition demo_vehicle :: "real \<Rightarrow> real \<Rightarrow> real \<Rightarrow> vehicle" where
  "demo_vehicle x velocity limit =
     \<lparr>actor_id = 7, vehicle_location = \<lparr>loc_x = x, loc_y = 0, loc_z = 0\<rparr>,
      vehicle_velocity = velocity, speed_limit = limit\<rparr>"

definition demo_env ::
  "(waypoint \<Rightarrow> waypoint list) \<Rightarrow> (waypoint \<Rightarrow> bool) \<Rightarrow> real \<Rightarrow> vehicle list
     \<Rightarrow> (unit, demo_messenger) env" where
  "demo_env successors junction spacing vehicles =
     \<lparr>GetLocation = (\<lambda>w. \<lparr>loc_x = spacing * real w, loc_y = 0, loc_z = 0\<rparr>),
      GetRoadId = (\<lambda>w. 1),
      GetSectionId = (\<lambda>w. 0),
      GetLaneId = (\<lambda>w. if w < 100 then 1 else 2),
      CheckJunction = junction,
      GetNextWaypoint = successors,
      DistanceSquared = (\<lambda>a b. (spacing * (real a - real b)) ^ 2),
      DeviationDotProduct =
        (\<lambda>v l. if loc_x (vehicle_location v) < loc_x l then 1
               else if loc_x l < loc_x (vehicle_location v) then - 1 else 0),
      DeviationCrossProduct = (\<lambda>v l. 0),
      GetWaypoint = (\<lambda>l. nat \<lfloor>loc_x l / spacing\<rfloor>),
      rand = (\<lambda>n. n),
      UpdateVehicleRoadPosition = (\<lambda>td a ids. td),
      AssignLaneChange = (\<lambda>td v w ids cur index vehicles. (td, None)),
      actor_list = vehicles,
      vehicle_id_to_index = (\<lambda>a. if a = 7 then Some 0 else None),
      GetState = fst,
      SendData = (\<lambda>ch p. ((fst ch + 1, snd ch @ [packet_data p]), fst ch + 1))\<rparr>"

definition demo_stage ::
  "buffer_list \<Rightarrow> buffer_list \<Rightarrow> int \<Rightarrow> demo_messenger \<Rightarrow> (unit, demo_messenger) stage" where
  "demo_stage list_a list_b recorded messenger =
     \<lparr>planner_frame_selector = True,
      collision_frame_selector = True,
      traffic_light_frame_selector = True,
      buffer_list_a = list_a,
      buffer_list_b = list_b,
      planner_frame_a = replicate (length list_a)
        \<lparr>planner_actor = demo_vehicle 0 0 0, deviation = 0, approaching_true_junction = False\<rparr>,
      planner_frame_b = replicate (length list_a)
        \<lparr>planner_actor = demo_vehicle 0 0 0, deviation = 0, approaching_true_junction = False\<rparr>,
      collision_frame_a = replicate (length list_a)
        \<lparr>collision_actor = demo_vehicle 0 0 0, collision_buffer = InBufferListA 0\<rparr>,
      collision_frame_b = replicate (length list_a)
        \<lparr>collision_actor = demo_vehicle 0 0 0, collision_buffer = InBufferListA 0\<rparr>,
      traffic_light_frame_a = replicate (length list_a)
        \<lparr>traffic_light_actor = demo_vehicle 0 0 0, closest_waypoint = 0,
         junction_look_ahead_waypoint = 0\<rparr>,
      traffic_light_frame_b = replicate (length list_a)
        \<lparr>traffic_light_actor = demo_vehicle 0 0 0, closest_waypoint = 0,
         junction_look_ahead_waypoint = 0\<rparr>,
      planner_messenger_state = recorded,
      collision_messenger_state = recorded,
      traffic_light_messenger_state = recorded,
      planner_messenger = messenger,
      collision_messenger = messenger,
      traffic_light_messenger = messenger,
      traffic_distributor = (),
      rand_calls = 0\<rparr>"

text \<open>The same world with a distributor that sends every vehicle to waypoint 200.\<close>

definition demo_lane_change_env ::
  "(waypoint \<Rightarrow> waypoint list) \<Rightarrow> (waypoint \<Rightarrow> bool) \<Rightarrow> real \<Rightarrow> vehicle list
     \<Rightarrow> (unit, demo_messenger) env" where
  "demo_lane_change_env successors junction spacing vehicles =
     (demo_env successors junction spacing vehicles)
       \<lparr>AssignLaneChange := (\<lambda>td v w ids cur index vehicles. (td, Some 200))\<rparr>"

text \<open>Successor relations: a straight road, a road that forks at waypoint 1, a road
  that ends at waypoint 2, and a waypoint that is its own successor.\<close>

definition straight :: "waypoint \<Rightarrow> waypoint list" where
  "straight w = [w + 1]"

definition forked :: "waypoint \<Rightarrow> waypoint list" where
  "forked w = (if w = 1 then [2, 50] else [w + 1])"

definition dead_end :: "waypoint \<Rightarrow> waypoint list" where
  "dead_end w = (if w = 2 then [] else [w + 1])"

definition self_loop :: "waypoint \<Rightarrow> waypoint list" where
  "self_loop w = [w]"

definition no_junction :: "waypoint \<Rightarrow> bool" where
  "no_junction w = False"

definition junction_at_2 :: "waypoint \<Rightarrow> bool" where
  "junction_at_2 w = (w = 2)"

text \<open>The loop equations are unfolded by hand.\<close>

declare target_loop.simps [simp del]
declare look_ahead_loop.simps [simp del]
declare junction_loop.simps [simp del]
declare action_loop.simps [simp del]
declare populate_buffer.simps [code]

section \<open>Auxiliary facts\<close>

subsection \<open>Values of binary32\<close>

lemma binary32_zero: "binary32 0 = 0"
  by (simp add: binary32_def)

text \<open>Within a binade the unit in the last place is fixed.\<close>

lemma binary32_binade:
  assumes "2 powi e \<le> \<bar>x\<bar>" "\<bar>x\<bar> < 2 powi (e + 1)" "- 126 \<le> e"
  shows "binary32 x = of_int (round_half_even (x / 2 powi (e - 23))) * 2 powi (e - 23)"
proof -
  have pos: "0 < \<bar>x\<bar>"
    using assms(1) by (smt (verit) zero_less_power_int)
  have upper: "2 powr (real_of_int e + 1) = (2::real) powi (e + 1)"
    using powr_real_of_int' [of "2::real" "e + 1"] by simp
  have lower: "2 powr real_of_int e = (2::real) powi e"
    using powr_real_of_int' [of "2::real" e] by simp
  have "2 powr real_of_int e \<le> \<bar>x\<bar> \<and> \<bar>x\<bar> < 2 powr (real_of_int e + 1)"
    unfolding upper lower using assms(1,2) by simp
  with pos have "\<lfloor>log 2 \<bar>x\<bar>\<rfloor> = e"
    using floor_log_eq_powr_iff [of "\<bar>x\<bar>" 2 e] by simp
  with pos assms(3) show ?thesis
    by (auto simp: binary32_def Let_def max_def)
qed

lemma binary32_one: "binary32 1 = 1"
  using binary32_binade [of 0 1] by (simp add: round_half_even_def)

lemma binary32_two: "binary32 2 = 2"
  using binary32_binade [of 1 2] by (simp add: round_half_even_def)

lemma binary32_3_6: "binary32 3.6 = 7549747 / 2097152"
  using binary32_binade [of 1 "3.6"] by (simp add: round_half_even_def power_int_minus)

lemma HIGHWAY_SPEED_value: "HIGHWAY_SPEED = 3640889 / 262144"
  unfolding HIGHWAY_SPEED_def binary32_3_6
  using binary32_binade [of 3 "50 / (7549747 / 2097152)"]
  by (simp add: round_half_even_def power_int_minus)

lemma horizon_size_at_rest: "horizon_size 0 = 25"
  by (simp add: horizon_size_def binary32_zero WAYPOINT_TIME_HORIZON_def
        MINIMUM_HORIZON_LENGTH_def)

subsection \<open>Purging and populating\<close>

lemma purge_loop_dropWhile:
  "ws \<noteq> [] \<Longrightarrow>
   purge_loop env v (signed_deviation env v (hd ws)) ws =
     dropWhile (\<lambda>w. signed_deviation env v w \<le> 0) ws"
proof (induction ws)
  case Nil
  then show ?case by simp
next
  case (Cons w ws)
  show ?case
  proof (cases ws)
    case Nil
    then show ?thesis by simp
  next
    case (Cons w' ws')
    with Cons.IH show ?thesis by (simp add: signed_deviation_def)
  qed
qed

lemma purge_passed_waypoints_dropWhile:
  "purge_passed_waypoints env v wb = dropWhile (\<lambda>w. signed_deviation env v w \<le> 0) wb"
  using purge_loop_dropWhile [of wb env v]
  by (cases "wb = []") (simp_all add: purge_passed_waypoints_def signed_deviation_def)

lemma populate_buffer_cases:
  assumes "populate_buffer env h wb rc = Some r"
  shows "(wb = [] \<and> r = Inl EmptyContainer) \<or>
         (wb \<noteq> [] \<and> \<not> DistanceSquared env (last wb) (hd wb) \<le> h ^ 2 \<and> r = Inr (wb, rc)) \<or>
         (wb \<noteq> [] \<and> DistanceSquared env (last wb) (hd wb) \<le> h ^ 2 \<and>
          at_index (GetNextWaypoint env (last wb))
            (fst (path_selection env (GetNextWaypoint env (last wb)) rc)) = Inl OutOfRange \<and>
          r = Inl OutOfRange) \<or>
         (wb \<noteq> [] \<and> DistanceSquared env (last wb) (hd wb) \<le> h ^ 2 \<and>
          (\<exists>w. at_index (GetNextWaypoint env (last wb))
                 (fst (path_selection env (GetNextWaypoint env (last wb)) rc)) = Inr w \<and>
               populate_buffer env h (wb @ [w])
                 (snd (path_selection env (GetNextWaypoint env (last wb)) rc)) = Some r))"
  using assms
  by (subst (asm) populate_buffer.simps)
     (auto simp: Let_def at_index_def split: if_splits sum.splits)

lemma populate_buffer_induct [consumes 1, case_names empty stop fail step]:
  assumes run: "populate_buffer env h wb rc = Some r"
    and empty: "\<And>rc. P [] rc (Inl EmptyContainer)"
    and stop: "\<And>wb rc. wb \<noteq> [] \<Longrightarrow> \<not> DistanceSquared env (last wb) (hd wb) \<le> h ^ 2
                 \<Longrightarrow> P wb rc (Inr (wb, rc))"
    and fail: "\<And>wb rc e. wb \<noteq> [] \<Longrightarrow> DistanceSquared env (last wb) (hd wb) \<le> h ^ 2
                 \<Longrightarrow> at_index (GetNextWaypoint env (last wb))
                       (fst (path_selection env (GetNextWaypoint env (last wb)) rc)) = Inl e
                 \<Longrightarrow> P wb rc (Inl e)"
    and step: "\<And>wb rc w r.
                 wb \<noteq> [] \<Longrightarrow> DistanceSquared env (last wb) (hd wb) \<le> h ^ 2
                 \<Longrightarrow> at_index (GetNextWaypoint env (last wb))
                       (fst (path_selection env (GetNextWaypoint env (last wb)) rc)) = Inr w
                 \<Longrightarrow> P (wb @ [w]) (snd (path_selection env (GetNextWaypoint env (last wb)) rc)) r
                 \<Longrightarrow> P wb rc r"
  shows "P wb rc r"
proof -
  have "env' = env \<and> h' = h \<longrightarrow> P wb rc r"
    if "populate_buffer env' h' wb rc = Some r" for env' h'
    using that
  proof (induction rule: populate_buffer.raw_induct [rotated 1, consumes 1])
    case (1 populate env' h' wb rc r)
    show ?case
    proof (intro impI, elim conjE)
      assume eq: "env' = env" "h' = h"
      show "P wb rc r"
      proof (cases "wb = []")
        case True
        with 1(2) empty [of rc] show ?thesis by auto
      next
        case ne: False
        show ?thesis
        proof (cases "DistanceSquared env (last wb) (hd wb) \<le> h ^ 2")
          case False
          with 1(2) ne eq stop [of wb rc] show ?thesis by auto
        next
          case True
          show ?thesis
          proof (cases "at_index (GetNextWaypoint env (last wb))
                       (fst (path_selection env (GetNextWaypoint env (last wb)) rc))")
            case (Inl e)
            with 1(2) ne eq True have "r = Inl e" by (simp add: Let_def)
            with fail [OF ne True Inl] show ?thesis by simp
          next
            case (Inr w)
            with 1(2) ne eq True
            have "populate env h (wb @ [w])
                    (snd (path_selection env (GetNextWaypoint env (last wb)) rc)) = Some r"
              by (simp add: Let_def)
            with 1(1) [of env h] eq
            have "P (wb @ [w]) (snd (path_selection env (GetNextWaypoint env (last wb)) rc)) r"
              by simp
            with step [OF ne True Inr] show ?thesis by simp
          qed
        qed
      qed
    qed
  qed
  from this [OF run] show ?thesis by simp
qed

lemma populate_buffer_extends:
  assumes "populate_buffer env h wb rc = Some (Inr (wb', rc'))"
  shows "wb \<noteq> [] \<and> (\<exists>ext. wb' = wb @ ext)"
proof -
  have "\<forall>wb' rc'. r = Inr (wb', rc') \<longrightarrow> wb \<noteq> [] \<and> (\<exists>ext. wb' = wb @ ext)"
    if "populate_buffer env h wb rc = Some r" for r
    using that by (induction rule: populate_buffer_induct) auto
  with assms show ?thesis by blast
qed

subsection \<open>Walks\<close>

lemma target_loop_from:
  assumes "0 < i" "i \<le> length wb"
  shows "\<exists>k. i - 1 \<le> k \<and> k < length wb \<and>
             target_loop env wb d i (wb ! (i - 1)) = Inr (wb ! k) \<and>
             (\<forall>j. i - 1 \<le> j \<and> j < k \<longrightarrow> DistanceSquared env (hd wb) (wb ! j) < d ^ 2) \<and>
             (k = length wb - 1 \<or> \<not> DistanceSquared env (hd wb) (wb ! k) < d ^ 2)"
  using assms
proof (induction "length wb - i" arbitrary: i)
  case 0
  then have "i = length wb" by simp
  with 0 show ?case
    by (intro exI [of _ "length wb - 1"]) (subst target_loop.simps, auto)
next
  case (Suc n)
  then have lt: "i < length wb" by simp
  show ?case
  proof (cases "DistanceSquared env (hd wb) (wb ! (i - 1)) < d ^ 2")
    case False
    with Suc.prems lt show ?thesis
      by (intro exI [of _ "i - 1"]) (subst target_loop.simps, auto)
  next
    case True
    from Suc.hyps(2) lt have "n = length wb - Suc i" by simp
    from Suc.hyps(1) [OF this] lt
    obtain k where k: "i \<le> k" "k < length wb"
      "target_loop env wb d (Suc i) (wb ! i) = Inr (wb ! k)"
      "\<forall>j. i \<le> j \<and> j < k \<longrightarrow> DistanceSquared env (hd wb) (wb ! j) < d ^ 2"
      "k = length wb - 1 \<or> \<not> DistanceSquared env (hd wb) (wb ! k) < d ^ 2"
      by auto
    have run: "target_loop env wb d i (wb ! (i - 1)) = Inr (wb ! k)"
      using True lt k(3) by (subst target_loop.simps) (simp add: at_index_def)
    have "\<forall>j. i - 1 \<le> j \<and> j < k \<longrightarrow> DistanceSquared env (hd wb) (wb ! j) < d ^ 2"
    proof (intro allI impI)
      fix j assume j: "i - 1 \<le> j \<and> j < k"
      show "DistanceSquared env (hd wb) (wb ! j) < d ^ 2"
      proof (cases "j = i - 1")
        case True
        with \<open>DistanceSquared env (hd wb) (wb ! (i - 1)) < d ^ 2\<close> show ?thesis by simp
      next
        case False
        with j have "i \<le> j \<and> j < k" by arith
        with k(4) show ?thesis by blast
      qed
    qed
    with k run show ?thesis
      by (intro exI [of _ k]) auto
  qed
qed

lemma select_target_spec:
  assumes "wb \<noteq> []"
  shows "\<exists>k<length wb.
           select_target env velocity wb = Inr (wb ! k) \<and>
           (\<forall>j<k. DistanceSquared env (hd wb) (wb ! j) < (target_point_distance velocity) ^ 2) \<and>
           (k = length wb - 1 \<or>
            \<not> DistanceSquared env (hd wb) (wb ! k) < (target_point_distance velocity) ^ 2)"
proof (cases "DistanceSquared env (hd wb) (hd wb) < (target_point_distance velocity) ^ 2")
  case False
  with assms show ?thesis
    by (intro exI [of _ 0])
       (simp add: select_target_def hd_conv_nth
          target_loop.simps [of env wb "target_point_distance velocity" 0])
next
  case True
  from assms have "0 < Suc 0" "Suc 0 \<le> length wb" by (simp_all add: Suc_leI)
  from target_loop_from [OF this, of env "target_point_distance velocity"]
  obtain k where k: "k < length wb"
    "target_loop env wb (target_point_distance velocity) (Suc 0) (wb ! 0) = Inr (wb ! k)"
    "\<forall>j. j < k \<longrightarrow> DistanceSquared env (hd wb) (wb ! j) < (target_point_distance velocity) ^ 2"
    "k = length wb - 1 \<or>
       \<not> DistanceSquared env (hd wb) (wb ! k) < (target_point_distance velocity) ^ 2"
    by auto
  have "select_target env velocity wb = Inr (wb ! k)"
    using assms True k(2)
    by (simp add: select_target_def hd_conv_nth at_index_def
          target_loop.simps [of env wb "target_point_distance velocity" 0])
  with k show ?thesis by (intro exI [of _ k]) auto
qed

lemma look_ahead_loop_from:
  assumes "k < length wb" "i \<le> length wb"
  shows "\<exists>k'<length wb. look_ahead_loop env wb d i (wb ! k, k) = Inr (wb ! k', k')"
  using assms
proof (induction "length wb - i" arbitrary: i k)
  case 0
  then show ?case by (intro exI [of _ k]) (simp add: look_ahead_loop.simps)
next
  case (Suc n)
  then have lt: "i < length wb" by simp
  from Suc.hyps(2) lt have "n = length wb - Suc i" by simp
  from Suc.hyps(1) [OF this, of i] lt
  obtain k' where "k' < length wb" "look_ahead_loop env wb d (Suc i) (wb ! i, i) = Inr (wb ! k', k')"
    by auto
  with lt Suc.prems show ?case
    by (cases "DistanceSquared env (hd wb) (wb ! k) < d ^ 2")
       (auto simp: at_index_def look_ahead_loop.simps [of env wb d i])
qed

lemma look_ahead_spec:
  assumes "wb \<noteq> []"
  shows "\<exists>k<length wb. look_ahead env velocity wb = Inr (wb ! k, k)"
  using assms look_ahead_loop_from [of 0 wb 0 env "look_ahead_distance velocity"]
  by (simp add: look_ahead_def hd_conv_nth)

lemma junction_loop_spec:
  assumes "look_ahead_index \<le> length wb"
  shows "junction_loop env wb look_ahead_index i flag =
           Inr (flag \<or> (\<exists>j. i \<le> j \<and> j < look_ahead_index \<and>
                             1 < length (GetNextWaypoint env (wb ! j))))"
  using assms
proof (induction "look_ahead_index - i" arbitrary: i flag)
  case 0
  then show ?case by (auto simp: junction_loop.simps)
next
  case (Suc n)
  then have lt: "i < look_ahead_index" by simp
  from Suc.hyps(2) have n: "n = look_ahead_index - Suc i" by simp
  have split: "(\<exists>j. i \<le> j \<and> j < look_ahead_index \<and> 1 < length (GetNextWaypoint env (wb ! j)))
      = (1 < length (GetNextWaypoint env (wb ! i)) \<or>
         (\<exists>j. Suc i \<le> j \<and> j < look_ahead_index \<and> 1 < length (GetNextWaypoint env (wb ! j))))"
    (is "?L = (?b \<or> ?R)")
  proof
    assume ?L
    then obtain j where j: "i \<le> j" "j < look_ahead_index"
      "1 < length (GetNextWaypoint env (wb ! j))" by blast
    show "?b \<or> ?R"
    proof (cases "j = i")
      case True
      with j show ?thesis by simp
    next
      case False
      with j have "Suc i \<le> j" by simp
      with j show ?thesis by blast
    qed
  next
    assume "?b \<or> ?R"
    then show ?L using lt by (auto intro: exI [of _ i]) (use Suc_leD in blast)
  qed
  show ?case
  proof (cases flag)
    case True
    then show ?thesis by (simp add: junction_loop.simps)
  next
    case False
    have "junction_loop env wb look_ahead_index i flag =
          junction_loop env wb look_ahead_index (Suc i) ?b"
      using False lt Suc.prems by (subst junction_loop.simps) (simp add: at_index_def)
    also have "\<dots> = Inr (?b \<or> ?R)"
      by (rule Suc.hyps(1) [OF n Suc.prems])
    finally show ?thesis using split False by simp
  qed
qed

lemma approaching_junction_in_range:
  assumes "k < length wb"
  shows "approaching_junction env v wb p k =
           Inr (CheckJunction env p \<and> \<not> CheckJunction env (hd wb) \<and>
                (HIGHWAY_SPEED < speed_limit v \<longrightarrow>
                   (\<exists>j<k. 1 < length (GetNextWaypoint env (wb ! j)))))"
proof -
  from assms have "wb \<noteq> []" "k \<le> length wb" by auto
  then show ?thesis
    using junction_loop_spec [of k wb env 0 False]
    by (auto simp: approaching_junction_def)
qed

subsection \<open>Frame writes leave the buffer lists alone\<close>

lemma store_buffer_current:
  "current_buffer_list (store_buffer i wb st) = (current_buffer_list st)[i := wb]"
  by (simp add: current_buffer_list_def store_buffer_def)

lemma store_buffer_copy:
  "copy_buffer_list (store_buffer i wb st) = copy_buffer_list st"
  by (simp add: copy_buffer_list_def store_buffer_def)

lemma store_buffer_selector:
  "collision_frame_selector (store_buffer i wb st) = collision_frame_selector st"
  by (simp add: store_buffer_def)

lemma edit_output_frames_buffers:
  assumes "edit_output_frames v i wb d flag k st = Inr st'"
  shows "buffer_list_a st' = buffer_list_a st \<and> buffer_list_b st' = buffer_list_b st \<and>
         collision_frame_selector st' = collision_frame_selector st"
  using assms
  by (auto simp: edit_output_frames_def store_planner_data_def store_collision_data_def
        store_traffic_light_data_def split: sum.splits if_splits)

lemma edit_output_frames_lists:
  assumes "edit_output_frames v i wb d flag k st = Inr st'"
  shows "current_buffer_list st' = current_buffer_list st \<and>
         copy_buffer_list st' = copy_buffer_list st \<and>
         collision_frame_selector st' = collision_frame_selector st"
  using edit_output_frames_buffers [OF assms]
  by (simp add: current_buffer_list_def copy_buffer_list_def)

lemma initialize_buffer_nonempty: "initialize_buffer env v wb \<noteq> []"
  by (simp add: initialize_buffer_def)

lemma assign_lane_change_nonempty:
  assumes "assign_lane_change env td v cur wb = Inr (td', wb')"
  shows "wb' \<noteq> []"
  using assms
  by (auto simp: assign_lane_change_def Let_def split: if_splits prod.splits option.splits)

lemma update_buffer_nonempty:
  assumes "update_buffer env v i cur cpy td rc = Some (Inr (wb, td', rc'))"
  shows "wb \<noteq> [] \<and> i < length cur"
  using assms
  by (auto simp: update_buffer_def Let_def at_index_def
        split: sum.splits if_splits option.splits prod.splits
        dest: populate_buffer_extends)

lemma process_vehicle_result:
  assumes "process_vehicle env i st = Some (Inr st')"
  shows "\<exists>v wb td rc.
           at_index (actor_list env) i = Inr v \<and>
           update_buffer env v i (current_buffer_list st) (copy_buffer_list st)
             (traffic_distributor st) (rand_calls st) = Some (Inr (wb, td, rc)) \<and>
           current_buffer_list st' = (current_buffer_list st)[i := wb] \<and>
           copy_buffer_list st' = copy_buffer_list st \<and>
           collision_frame_selector st' = collision_frame_selector st"
proof -
  from assms obtain v wb td rc d flag k where
    v: "at_index (actor_list env) i = Inr v" and
    u: "update_buffer env v i (current_buffer_list st) (copy_buffer_list st)
             (traffic_distributor st) (rand_calls st) = Some (Inr (wb, td, rc))" and
    e: "edit_output_frames v i wb d flag k
          (store_buffer i wb (st\<lparr>traffic_distributor := td, rand_calls := rc\<rparr>)) = Inr st'"
    by (auto simp: process_vehicle_def split: sum.splits option.splits prod.splits)
  let ?pre = "st\<lparr>traffic_distributor := td, rand_calls := rc\<rparr>"
  let ?s = "store_buffer i wb ?pre"
  have s0: "current_buffer_list ?pre = current_buffer_list st"
    "copy_buffer_list ?pre = copy_buffer_list st"
    by (simp_all add: current_buffer_list_def copy_buffer_list_def)
  from edit_output_frames_lists [OF e]
  have "current_buffer_list st' = current_buffer_list ?s"
    "copy_buffer_list st' = copy_buffer_list ?s"
    "collision_frame_selector st' = collision_frame_selector ?s"
    by simp_all
  with s0 have "current_buffer_list st' = (current_buffer_list st)[i := wb]"
    "copy_buffer_list st' = copy_buffer_list st"
    "collision_frame_selector st' = collision_frame_selector st"
    by (simp_all add: store_buffer_current store_buffer_copy store_buffer_selector)
  with v u show ?thesis by blast
qed

lemma action_loop_copy:
  assumes "action_loop env i end_index st = Some (Inr st')"
  shows "copy_buffer_list st' = copy_buffer_list st \<and>
         collision_frame_selector st' = collision_frame_selector st"
  using assms
proof (induction env i end_index st rule: action_loop.induct)
  case (1 env i end_index st)
  show ?case
  proof (cases "i \<le> end_index")
    case False
    with "1.prems" show ?thesis by (simp add: action_loop.simps)
  next
    case True
    with "1.prems" obtain st1 where
      p: "process_vehicle env i st = Some (Inr st1)" and
      l: "action_loop env (Suc i) end_index st1 = Some (Inr st')"
      by (subst (asm) action_loop.simps) (auto split: option.splits sum.splits)
    from "1.IH" [OF True p refl l] process_vehicle_result [OF p]
    show ?thesis by auto
  qed
qed

subsection \<open>The loop of Action\<close>

lemma action_loop_earlier_buffers:
  assumes "action_loop env i end_index st = Some (Inr st')"
  shows "length (current_buffer_list st') = length (current_buffer_list st) \<and>
         (\<forall>j<i. current_buffer_list st' ! j = current_buffer_list st ! j)"
  using assms
proof (induction env i end_index st rule: action_loop.induct)
  case (1 env i end_index st)
  show ?case
  proof (cases "i \<le> end_index")
    case False
    with "1.prems" show ?thesis by (simp add: action_loop.simps)
  next
    case True
    with "1.prems" obtain st1 where
      p: "process_vehicle env i st = Some (Inr st1)" and
      l: "action_loop env (Suc i) end_index st1 = Some (Inr st')"
      by (subst (asm) action_loop.simps) (auto split: option.splits sum.splits)
    from process_vehicle_result [OF p] obtain wb where
      "current_buffer_list st1 = (current_buffer_list st)[i := wb]" by blast
    with "1.IH" [OF True p refl l] show ?thesis by simp
  qed
qed

lemma action_loop_buffers_nonempty:
  assumes "action_loop env i end_index st = Some (Inr st')"
  shows "\<forall>j. i \<le> j \<and> j \<le> end_index \<longrightarrow>
           j < length (current_buffer_list st') \<and> current_buffer_list st' ! j \<noteq> []"
  using assms
proof (induction env i end_index st rule: action_loop.induct)
  case (1 env i end_index st)
  show ?case
  proof (cases "i \<le> end_index")
    case False
    then show ?thesis by (auto dest: le_trans)
  next
    case True
    with "1.prems" obtain st1 where
      p: "process_vehicle env i st = Some (Inr st1)" and
      l: "action_loop env (Suc i) end_index st1 = Some (Inr st')"
      by (subst (asm) action_loop.simps) (auto split: option.splits sum.splits)
    from process_vehicle_result [OF p] obtain v wb td rc where
      u: "update_buffer env v i (current_buffer_list st) (copy_buffer_list st)
             (traffic_distributor st) (rand_calls st) = Some (Inr (wb, td, rc))" and
      c: "current_buffer_list st1 = (current_buffer_list st)[i := wb]"
      by blast
    from update_buffer_nonempty [OF u] c
    have here: "i < length (current_buffer_list st1)" "current_buffer_list st1 ! i \<noteq> []"
      by simp_all
    from action_loop_earlier_buffers [OF l] here
    have kept: "i < length (current_buffer_list st')" "current_buffer_list st' ! i \<noteq> []"
      by simp_all
    show ?thesis
    proof (intro allI impI)
      fix j assume j: "i \<le> j \<and> j \<le> end_index"
      show "j < length (current_buffer_list st') \<and> current_buffer_list st' ! j \<noteq> []"
      proof (cases "j = i")
        case True
        with kept show ?thesis by simp
      next
        case False
        with j have "Suc i \<le> j \<and> j \<le> end_index" by simp
        with "1.IH" [OF True p refl l] show ?thesis by blast
      qed
    qed
  qed
qed

subsection \<open>No access to an empty buffer\<close>

lemma at_index_error: "at_index xs k = Inl e \<Longrightarrow> e = OutOfRange"
  by (simp add: at_index_def split: if_splits)

lemma initialize_buffer_reseed:
  "initialize_buffer env v [] = [GetWaypoint env (vehicle_location v)]"
  "wb \<noteq> [] \<Longrightarrow> initialize_buffer env v wb = wb"
  by (simp_all add: initialize_buffer_def)

lemma assign_lane_change_result:
  assumes "wb \<noteq> []"
  shows "assign_lane_change env td v cur wb =
           (if CheckJunction env (hd wb)
            then Inr (UpdateVehicleRoadPosition env td (actor_id v) (front_geo_ids env (hd wb)), wb)
            else
              (case AssignLaneChange env
                      (UpdateVehicleRoadPosition env td (actor_id v) (front_geo_ids env (hd wb)))
                      v (hd wb) (front_geo_ids env (hd wb)) cur
                      (vehicle_id_to_index env) (actor_list env) of
                 (td', None) \<Rightarrow> Inr (td', wb)
               | (td', Some change_over_point) \<Rightarrow> Inr (td', [change_over_point])))"
  using assms by (simp add: assign_lane_change_def Let_def split: prod.splits option.splits)

lemma populate_buffer_error:
  assumes "populate_buffer env h wb rc = Some r" "wb \<noteq> []"
  shows "r \<noteq> Inl EmptyContainer"
  using assms
proof (induction rule: populate_buffer_induct)
  case (empty rc)
  then show ?case by simp
next
  case (stop wb rc)
  then show ?case by simp
next
  case (fail wb rc e)
  from at_index_error [OF fail(3)] show ?case by simp
next
  case (step wb rc w r)
  then show ?case by simp
qed

lemma update_buffer_result:
  assumes "update_buffer env v i cur cpy td rc = Some (Inr (wb, td', rc'))"
  shows "\<exists>wb4 ext.
           i < length cur \<and> i < length cpy \<and>
           assign_lane_change env td v
             (cur[i := initialize_buffer env v
                         (purge_passed_waypoints env v (synchronize_buffer env (cur ! i) (cpy ! i)))])
             (initialize_buffer env v
                (purge_passed_waypoints env v (synchronize_buffer env (cur ! i) (cpy ! i))))
             = Inr (td', wb4) \<and>
           wb4 \<noteq> [] \<and> wb = wb4 @ ext"
  using assms
  by (auto simp: update_buffer_def Let_def at_index_def
        split: sum.splits if_splits option.splits prod.splits
        dest!: populate_buffer_extends)

lemma update_buffer_error:
  "update_buffer env v i cur cpy td rc \<noteq> Some (Inl EmptyContainer)"
proof
  assume failed: "update_buffer env v i cur cpy td rc = Some (Inl EmptyContainer)"
  let ?reseeded = "initialize_buffer env v
                     (purge_passed_waypoints env v (synchronize_buffer env (cur ! i) (cpy ! i)))"
  have reseeded: "?reseeded \<noteq> []"
    by (rule initialize_buffer_nonempty)
  from failed have range: "i < length cur" "i < length cpy"
    by (auto simp: update_buffer_def at_index_def split: if_splits)
  obtain td' wb4 where lane: "assign_lane_change env td v (cur[i := ?reseeded]) ?reseeded
                                = Inr (td', wb4)"
    using assign_lane_change_result [OF reseeded, of env td v "cur[i := ?reseeded]"]
    by (auto split: if_splits prod.splits option.splits)
  from assign_lane_change_nonempty [OF lane] have "wb4 \<noteq> []" .
  moreover from failed range lane
  have "populate_buffer env (horizon_size (vehicle_velocity v)) wb4 rc = Some (Inl EmptyContainer)"
    by (auto simp: update_buffer_def Let_def at_index_def split: option.splits sum.splits)
  ultimately show False
    using populate_buffer_error by blast
qed

lemma generate_output_returns:
  assumes "wb \<noteq> []"
  shows "\<exists>d flag k. generate_output env v wb = Inr (d, flag, k) \<and> k < length wb"
proof -
  from select_target_spec [OF assms, of env "vehicle_velocity v"]
  obtain t where t: "select_target env (vehicle_velocity v) wb = Inr (wb ! t)"
    by blast
  from look_ahead_spec [OF assms, of env "vehicle_velocity v"]
  obtain k where k: "k < length wb" "look_ahead env (vehicle_velocity v) wb = Inr (wb ! k, k)"
    by blast
  from approaching_junction_in_range [OF k(1), of env v "wb ! k"]
  obtain flag where f: "approaching_junction env v wb (wb ! k) k = Inr flag"
    by blast
  from t k f show ?thesis by (simp add: generate_output_def)
qed

lemma edit_output_frames_error:
  "edit_output_frames v i wb d flag k st = Inl e \<Longrightarrow> e = OutOfRange"
  by (auto simp: edit_output_frames_def split: sum.splits dest: at_index_error)

lemma process_vehicle_error:
  "process_vehicle env i st \<noteq> Some (Inl EmptyContainer)"
proof
  assume failed: "process_vehicle env i st = Some (Inl EmptyContainer)"
  from failed obtain v where v: "at_index (actor_list env) i = Inr v"
    by (auto simp: process_vehicle_def split: sum.splits dest: at_index_error)
  let ?update = "update_buffer env v i (current_buffer_list st) (copy_buffer_list st)
                   (traffic_distributor st) (rand_calls st)"
  from failed v update_buffer_error [of env v i "current_buffer_list st" "copy_buffer_list st"
                                        "traffic_distributor st" "rand_calls st"]
  obtain wb td rc where u: "?update = Some (Inr (wb, td, rc))"
    by (auto simp: process_vehicle_def split: option.splits sum.splits)
  from update_buffer_nonempty [OF u] have "wb \<noteq> []" by simp
  from generate_output_returns [OF this, of env v]
  obtain d flag k where g: "generate_output env v wb = Inr (d, flag, k)" by blast
  from failed v u g
  have "edit_output_frames v i wb d flag k
          (store_buffer i wb (st\<lparr>traffic_distributor := td, rand_calls := rc\<rparr>))
          = Inl EmptyContainer"
    by (simp add: process_vehicle_def)
  from edit_output_frames_error [OF this] show False by simp
qed

lemma action_loop_error:
  "action_loop env i end_index st \<noteq> Some (Inl EmptyContainer)"
proof (induction env i end_index st rule: action_loop.induct)
  case (1 env i end_index st)
  show ?case
  proof (cases "i \<le> end_index")
    case False
    then show ?thesis by (simp add: action_loop.simps)
  next
    case True
    show ?thesis
    proof (cases "process_vehicle env i st")
      case None
      with True show ?thesis by (simp add: action_loop.simps)
    next
      case (Some r)
      show ?thesis
      proof (cases r)
        case (Inl e)
        with Some True process_vehicle_error [of env i st] show ?thesis
          by (simp add: action_loop.simps)
      next
        case (Inr st1)
        with Some True "1.IH" [OF True Some Inr] show ?thesis
          by (simp add: action_loop.simps)
      qed
    qed
  qed
qed

lemma process_vehicle_buffer:
  assumes "process_vehicle env i st = Some (Inr st')"
  shows "\<exists>v td' wb4 ext.
           at_index (actor_list env) i = Inr v \<and>
           i < length (current_buffer_list st) \<and> i < length (copy_buffer_list st) \<and>
           assign_lane_change env (traffic_distributor st) v
             ((current_buffer_list st)
                [i := initialize_buffer env v
                        (purge_passed_waypoints env v
                           (synchronize_buffer env (current_buffer_list st ! i)
                              (copy_buffer_list st ! i)))])
             (initialize_buffer env v
                (purge_passed_waypoints env v
                   (synchronize_buffer env (current_buffer_list st ! i)
                      (copy_buffer_list st ! i))))
             = Inr (td', wb4) \<and>
           wb4 \<noteq> [] \<and> current_buffer_list st' ! i = wb4 @ ext"
proof -
  from process_vehicle_result [OF assms] obtain v wb td rc where
    v: "at_index (actor_list env) i = Inr v" and
    u: "update_buffer env v i (current_buffer_list st) (copy_buffer_list st)
             (traffic_distributor st) (rand_calls st) = Some (Inr (wb, td, rc))" and
    c: "current_buffer_list st' = (current_buffer_list st)[i := wb]"
    by blast
  from update_buffer_result [OF u] obtain wb4 ext where
    r: "i < length (current_buffer_list st)" "i < length (copy_buffer_list st)"
       "assign_lane_change env (traffic_distributor st) v
             ((current_buffer_list st)
                [i := initialize_buffer env v
                        (purge_passed_waypoints env v
                           (synchronize_buffer env (current_buffer_list st ! i)
                              (copy_buffer_list st ! i)))])
             (initialize_buffer env v
                (purge_passed_waypoints env v
                   (synchronize_buffer env (current_buffer_list st ! i)
                      (copy_buffer_list st ! i))))
             = Inr (td, wb4)"
       "wb4 \<noteq> []" "wb = wb4 @ ext"
    by blast
  from c r(1,5) have "current_buffer_list st' ! i = wb4 @ ext" by simp
  with v r show ?thesis by blast
qed

section \<open>Running the definitions\<close>

text \<open>The equations that evaluate the steps and the stage on the example worlds.\<close>

lemmas demo_simps = demo_env_def demo_stage_def demo_vehicle_def straight_def forked_def
  dead_end_def self_loop_def no_junction_def junction_at_2_def
  at_index_def path_selection_def horizon_size_def target_point_distance_def look_ahead_distance_def
  WAYPOINT_TIME_HORIZON_def MINIMUM_HORIZON_LENGTH_def TARGET_WAYPOINT_TIME_HORIZON_def
  TARGET_WAYPOINT_HORIZON_LENGTH_def MINIMUM_JUNCTION_LOOK_AHEAD_def HIGHWAY_SPEED_value
  binary32_zero binary32_one binary32_two
  front_geo_ids_def synchronize_buffer_def purge_passed_waypoints_def initialize_buffer_def
  assign_lane_change_def populate_buffer.simps target_loop.simps select_target_def
  output_deviation_def look_ahead_loop.simps look_ahead_def junction_loop.simps
  approaching_junction_def update_buffer_def generate_output_def signed_deviation_def

lemmas stage_simps = process_vehicle_def
  current_buffer_list_def copy_buffer_list_def current_buffer_ref_def current_planner_frame_def
  current_collision_frame_def current_traffic_light_frame_def store_buffer_def
  store_planner_data_def store_collision_data_def store_traffic_light_data_def
  edit_output_frames_def

lemma demo_env_fields:
  "GetNextWaypoint (demo_env successors junction spacing vehicles) = successors"
  "CheckJunction (demo_env successors junction spacing vehicles) = junction"
  "DistanceSquared (demo_env successors junction spacing vehicles) a b
     = (spacing * (real a - real b)) ^ 2"
  "rand (demo_env successors junction spacing vehicles) n = n"
  "actor_list (demo_env successors junction spacing vehicles) = vehicles"
  by (simp_all add: demo_env_def)

lemma demo_lane_change_env_fields:
  "AssignLaneChange (demo_lane_change_env successors junction spacing vehicles)
     td v w ids cur index actors = (td, Some 200)"
  "CheckJunction (demo_lane_change_env successors junction spacing vehicles) = junction"
  "GetWaypoint (demo_env successors junction spacing vehicles) l = nat \<lfloor>loc_x l / spacing\<rfloor>"
  "AssignLaneChange (demo_env successors junction spacing vehicles)
     td v w ids cur index actors = (td, None)"
  "UpdateVehicleRoadPosition (demo_env successors junction spacing vehicles) td a ids = td"
  "UpdateVehicleRoadPosition (demo_lane_change_env successors junction spacing vehicles) td a ids
     = td"
  by (simp_all add: demo_lane_change_env_def demo_env_def)

text \<open>The buffers after a lane change to waypoint 200, and after \<^verbatim>\<open>Action\<close> on two
  vehicles, the second with an empty buffer at \<open>x = 25\<close>.\<close>

lemma demo_lane_change_runs:
  "\<exists>st'. process_vehicle (demo_lane_change_env straight no_junction 10 [demo_vehicle 5 0 30]) 0
           (demo_stage [[0, 1, 2]] [[]] 0 (0, [])) = Some (Inr st') \<and>
         current_buffer_list st' ! 0 = [200, 201, 202, 203]"
  by (simp add: demo_lane_change_env_def demo_simps stage_simps)

lemma demo_Action_buffers:
  "\<exists>st'. Action (demo_env straight no_junction 10 [demo_vehicle 5 0 30, demo_vehicle 25 0 30]) 0 1
           (demo_stage [[0, 1, 2], []] [[0, 1], [7]] 0 (0, [])) = Some (Inr st') \<and>
         current_buffer_list st' ! 0 = [1, 2, 3, 4] \<and>
         current_buffer_list st' ! 1 = [2, 3, 4, 5]"
  by (simp add: Action_def action_loop.simps demo_simps stage_simps)

section \<open>The horizon buffer after a vehicle is processed\<close>

text \<open>
  C1. The buffer of a vehicle in the active buffer list is not empty when \<^verbatim>\<open>Action\<close> has
  processed the vehicle, by these steps, each stated here:
  \<^item> the reseed pushes the waypoint the map gives for the location of the vehicle onto
    an empty buffer, as its only element, and leaves any other buffer as it is;
  \<^item> the lane change step, on a buffer that is not empty, leaves it as it is when the
    front is in a junction or the distributor returns no waypoint, and replaces it by
    exactly the returned waypoint otherwise;
  \<^item> populating returns the buffer it was given with waypoints appended;
  \<^item> whenever the loop body returns for the index \<open>i\<close>, the buffer at \<open>i\<close> in the list
    the collision frame selector chooses is the lane-changed, reseeded buffer with
    waypoints appended, and is not empty;
  \<^item> \<^verbatim>\<open>front()\<close> and \<^verbatim>\<open>back()\<close> are never called on an empty buffer: the loop body and
    \<^verbatim>\<open>Action\<close> never end with \<open>EmptyContainer\<close>, so a run that does not return a state
    raised \<^verbatim>\<open>std::out_of_range\<close> or does not end;
  \<^item> when \<^verbatim>\<open>Action\<close> returns, the buffer of every index of its range is not empty.
\<close>

theorem horizon_buffer_nonempty_after_processing:
  "initialize_buffer env v [] = [GetWaypoint env (vehicle_location v)] \<and>
   (wb \<noteq> [] \<longrightarrow> initialize_buffer env v wb = wb) \<and>
   (wb \<noteq> [] \<longrightarrow>
      assign_lane_change env td v cur wb =
        (if CheckJunction env (hd wb)
         then Inr (UpdateVehicleRoadPosition env td (actor_id v) (front_geo_ids env (hd wb)), wb)
         else
           (case AssignLaneChange env
                   (UpdateVehicleRoadPosition env td (actor_id v) (front_geo_ids env (hd wb)))
                   v (hd wb) (front_geo_ids env (hd wb)) cur
                   (vehicle_id_to_index env) (actor_list env) of
              (td', None) \<Rightarrow> Inr (td', wb)
            | (td', Some change_over_point) \<Rightarrow> Inr (td', [change_over_point])))) \<and>
   (\<forall>wb' rc'. populate_buffer env h wb rc = Some (Inr (wb', rc')) \<longrightarrow>
      wb \<noteq> [] \<and> (\<exists>ext. wb' = wb @ ext)) \<and>
   (process_vehicle env i st = Some (Inr st') \<longrightarrow>
      i < length (current_buffer_list st') \<and> current_buffer_list st' ! i \<noteq> [] \<and>
      (\<exists>u td' wb4 ext.
         at_index (actor_list env) i = Inr u \<and>
         assign_lane_change env (traffic_distributor st) u
           ((current_buffer_list st)
              [i := initialize_buffer env u
                      (purge_passed_waypoints env u
                         (synchronize_buffer env (current_buffer_list st ! i)
                            (copy_buffer_list st ! i)))])
           (initialize_buffer env u
              (purge_passed_waypoints env u
                 (synchronize_buffer env (current_buffer_list st ! i)
                    (copy_buffer_list st ! i))))
           = Inr (td', wb4) \<and>
         wb4 \<noteq> [] \<and> current_buffer_list st' ! i = wb4 @ ext)) \<and>
   process_vehicle env i st \<noteq> Some (Inl EmptyContainer) \<and>
   (Action env start_index end_index st = Some (Inr st'') \<longrightarrow>
      (\<forall>j. start_index \<le> j \<and> j \<le> end_index \<longrightarrow>
         j < length (current_buffer_list st'') \<and> current_buffer_list st'' ! j \<noteq> [])) \<and>
   Action env start_index end_index st \<noteq> Some (Inl EmptyContainer)"
proof -
  have reseed: "initialize_buffer env v [] = [GetWaypoint env (vehicle_location v)]"
    "wb \<noteq> [] \<longrightarrow> initialize_buffer env v wb = wb"
    by (simp_all add: initialize_buffer_def)
  have lane: "wb \<noteq> [] \<longrightarrow>
      assign_lane_change env td v cur wb =
        (if CheckJunction env (hd wb)
         then Inr (UpdateVehicleRoadPosition env td (actor_id v) (front_geo_ids env (hd wb)), wb)
         else
           (case AssignLaneChange env
                   (UpdateVehicleRoadPosition env td (actor_id v) (front_geo_ids env (hd wb)))
                   v (hd wb) (front_geo_ids env (hd wb)) cur
                   (vehicle_id_to_index env) (actor_list env) of
              (td', None) \<Rightarrow> Inr (td', wb)
            | (td', Some change_over_point) \<Rightarrow> Inr (td', [change_over_point])))"
    by (simp add: assign_lane_change_def Let_def split: prod.splits option.splits)
  have grow: "\<forall>wb' rc'. populate_buffer env h wb rc = Some (Inr (wb', rc')) \<longrightarrow>
      wb \<noteq> [] \<and> (\<exists>ext. wb' = wb @ ext)"
    using populate_buffer_extends by blast
  have one: "process_vehicle env i st = Some (Inr st') \<longrightarrow>
      i < length (current_buffer_list st') \<and> current_buffer_list st' ! i \<noteq> [] \<and>
      (\<exists>u td' wb4 ext.
         at_index (actor_list env) i = Inr u \<and>
         assign_lane_change env (traffic_distributor st) u
           ((current_buffer_list st)
              [i := initialize_buffer env u
                      (purge_passed_waypoints env u
                         (synchronize_buffer env (current_buffer_list st ! i)
                            (copy_buffer_list st ! i)))])
           (initialize_buffer env u
              (purge_passed_waypoints env u
                 (synchronize_buffer env (current_buffer_list st ! i)
                    (copy_buffer_list st ! i))))
           = Inr (td', wb4) \<and>
         wb4 \<noteq> [] \<and> current_buffer_list st' ! i = wb4 @ ext)"
  proof
    assume run: "process_vehicle env i st = Some (Inr st')"
    from process_vehicle_result [OF run] obtain wb where
      c: "current_buffer_list st' = (current_buffer_list st)[i := wb]"
      by blast
    from process_vehicle_buffer [OF run] obtain u td' wb4 ext where
      b: "at_index (actor_list env) i = Inr u"
         "i < length (current_buffer_list st)"
         "assign_lane_change env (traffic_distributor st) u
           ((current_buffer_list st)
              [i := initialize_buffer env u
                      (purge_passed_waypoints env u
                         (synchronize_buffer env (current_buffer_list st ! i)
                            (copy_buffer_list st ! i)))])
           (initialize_buffer env u
              (purge_passed_waypoints env u
                 (synchronize_buffer env (current_buffer_list st ! i)
                    (copy_buffer_list st ! i))))
           = Inr (td', wb4)"
         "wb4 \<noteq> []" "current_buffer_list st' ! i = wb4 @ ext"
      by blast
    from c b(2) have "i < length (current_buffer_list st')" by simp
    moreover from b(4,5) have "current_buffer_list st' ! i \<noteq> []" by simp
    ultimately show "i < length (current_buffer_list st') \<and> current_buffer_list st' ! i \<noteq> [] \<and>
      (\<exists>u td' wb4 ext.
         at_index (actor_list env) i = Inr u \<and>
         assign_lane_change env (traffic_distributor st) u
           ((current_buffer_list st)
              [i := initialize_buffer env u
                      (purge_passed_waypoints env u
                         (synchronize_buffer env (current_buffer_list st ! i)
                            (copy_buffer_list st ! i)))])
           (initialize_buffer env u
              (purge_passed_waypoints env u
                 (synchronize_buffer env (current_buffer_list st ! i)
                    (copy_buffer_list st ! i))))
           = Inr (td', wb4) \<and>
         wb4 \<noteq> [] \<and> current_buffer_list st' ! i = wb4 @ ext)"
      using b by blast
  qed
  have all: "Action env start_index end_index st = Some (Inr st'') \<longrightarrow>
      (\<forall>j. start_index \<le> j \<and> j \<le> end_index \<longrightarrow>
         j < length (current_buffer_list st'') \<and> current_buffer_list st'' ! j \<noteq> [])"
    using action_loop_buffers_nonempty [of env start_index end_index st st'']
    by (simp add: Action_def)
  have no_empty_access: "process_vehicle env i st \<noteq> Some (Inl EmptyContainer)"
    "Action env start_index end_index st \<noteq> Some (Inl EmptyContainer)"
    by (simp_all add: process_vehicle_error action_loop_error Action_def)
  from reseed lane grow one all no_empty_access show ?thesis
    by (intro conjI)
qed

text \<open>The examples, on waypoints 10 apart. A vehicle at \<open>x = 25\<close> with an empty buffer
  is reseeded with waypoint 2. A distributor that returns waypoint 200 turns the buffer
  \<open>[1, 2]\<close> into \<open>[200]\<close>, and the vehicle ends with \<open>[200, 201, 202, 203]\<close>. \<^verbatim>\<open>Action\<close>
  on two vehicles, the second with an empty buffer, leaves \<open>[1, 2, 3, 4]\<close> and
  \<open>[2, 3, 4, 5]\<close>.\<close>

theorem horizon_buffer_nonempty_after_processing_witness:
  "initialize_buffer (demo_env straight no_junction 10 []) (demo_vehicle 25 0 30) [] = [2] \<and>
   initialize_buffer (demo_env straight no_junction 10 []) (demo_vehicle 25 0 30) [1, 2] = [1, 2] \<and>
   assign_lane_change (demo_lane_change_env straight no_junction 10 []) () (demo_vehicle 5 0 30)
     [[1, 2]] [1, 2] = Inr ((), [200]) \<and>
   assign_lane_change (demo_env straight no_junction 10 []) () (demo_vehicle 5 0 30)
     [[1, 2]] [1, 2] = Inr ((), [1, 2]) \<and>
   (\<exists>st'. process_vehicle (demo_lane_change_env straight no_junction 10 [demo_vehicle 5 0 30]) 0
           (demo_stage [[0, 1, 2]] [[]] 0 (0, [])) = Some (Inr st') \<and>
         current_buffer_list st' ! 0 = [200, 201, 202, 203] \<and>
         0 < length (current_buffer_list st') \<and> current_buffer_list st' ! 0 \<noteq> []) \<and>
   (\<exists>st'. Action (demo_env straight no_junction 10 [demo_vehicle 5 0 30, demo_vehicle 25 0 30]) 0 1
           (demo_stage [[0, 1, 2], []] [[0, 1], [7]] 0 (0, [])) = Some (Inr st') \<and>
         current_buffer_list st' ! 0 = [1, 2, 3, 4] \<and>
         current_buffer_list st' ! 1 = [2, 3, 4, 5] \<and>
         current_buffer_list st' ! 0 \<noteq> [] \<and> current_buffer_list st' ! 1 \<noteq> [])"
proof -
  let ?road = "demo_env straight no_junction 10 []"
  let ?change = "demo_lane_change_env straight no_junction 10 []"
  have ne: "[1, 2 :: nat] \<noteq> []" by simp
  note steps = horizon_buffer_nonempty_after_processing
  from steps [where env = ?road and v = "demo_vehicle 25 0 30" and wb = "[1, 2]"] ne
  have reseed: "initialize_buffer ?road (demo_vehicle 25 0 30) [] = [2]"
    "initialize_buffer ?road (demo_vehicle 25 0 30) [1, 2] = [1, 2]"
    by (simp_all add: demo_lane_change_env_fields demo_vehicle_def)
  from steps [where env = ?change and v = "demo_vehicle 5 0 30" and wb = "[1, 2]"
                and td = "()" and cur = "[[1, 2]]"] ne
  have change: "assign_lane_change ?change () (demo_vehicle 5 0 30) [[1, 2]] [1, 2]
                  = Inr ((), [200])"
    by (simp add: demo_lane_change_env_fields no_junction_def)
  from steps [where env = ?road and v = "demo_vehicle 5 0 30" and wb = "[1, 2]"
                and td = "()" and cur = "[[1, 2]]"] ne
  have keep: "assign_lane_change ?road () (demo_vehicle 5 0 30) [[1, 2]] [1, 2]
                = Inr ((), [1, 2])"
    by (simp add: demo_lane_change_env_fields demo_env_fields no_junction_def)
  from demo_lane_change_runs obtain st1 where
    one: "process_vehicle (demo_lane_change_env straight no_junction 10 [demo_vehicle 5 0 30]) 0
            (demo_stage [[0, 1, 2]] [[]] 0 (0, [])) = Some (Inr st1)"
      "current_buffer_list st1 ! 0 = [200, 201, 202, 203]"
    by blast
  from steps [where env = "demo_lane_change_env straight no_junction 10 [demo_vehicle 5 0 30]"
                and i = 0 and st = "demo_stage [[0, 1, 2]] [[]] 0 (0, [])" and st' = st1] one(1)
  have first: "0 < length (current_buffer_list st1) \<and> current_buffer_list st1 ! 0 \<noteq> []"
    by blast
  from demo_Action_buffers obtain st2 where
    all: "Action (demo_env straight no_junction 10 [demo_vehicle 5 0 30, demo_vehicle 25 0 30]) 0 1
            (demo_stage [[0, 1, 2], []] [[0, 1], [7]] 0 (0, [])) = Some (Inr st2)"
      "current_buffer_list st2 ! 0 = [1, 2, 3, 4]" "current_buffer_list st2 ! 1 = [2, 3, 4, 5]"
    by blast
  from steps [where env = "demo_env straight no_junction 10 [demo_vehicle 5 0 30, demo_vehicle 25 0 30]"
                and start_index = 0 and end_index = 1
                and st = "demo_stage [[0, 1, 2], []] [[0, 1], [7]] 0 (0, [])" and st'' = st2] all(1)
  have both: "current_buffer_list st2 ! 0 \<noteq> [] \<and> current_buffer_list st2 ! 1 \<noteq> []"
    by simp
  from reseed change keep one first all both show ?thesis by blast
qed

section \<open>Trimming\<close>

text \<open>
  C3. Purging removes exactly the longest prefix of buffer entries whose signed deviation
  is at most 0: the result is the buffer without that prefix, every removed entry has a
  signed deviation of at most 0, nothing behind the first kept entry is removed, and
  the result is empty or its front has a signed deviation above 0.
\<close>

theorem purge_removes_maximal_passed_prefix:
  "purge_passed_waypoints env v wb = dropWhile (\<lambda>w. signed_deviation env v w \<le> 0) wb \<and>
   wb = takeWhile (\<lambda>w. signed_deviation env v w \<le> 0) wb @ purge_passed_waypoints env v wb \<and>
   (\<forall>w \<in> set (takeWhile (\<lambda>w. signed_deviation env v w \<le> 0) wb). signed_deviation env v w \<le> 0) \<and>
   (purge_passed_waypoints env v wb = [] \<or>
    0 < signed_deviation env v (hd (purge_passed_waypoints env v wb)))"
proof -
  let ?passed = "\<lambda>w. signed_deviation env v w \<le> 0"
  have eq: "purge_passed_waypoints env v wb = dropWhile ?passed wb"
    by (rule purge_passed_waypoints_dropWhile)
  have popped: "\<forall>w \<in> set (takeWhile ?passed wb). ?passed w"
    by (auto dest: set_takeWhileD)
  have front: "dropWhile ?passed wb = [] \<or> 0 < signed_deviation env v (hd (dropWhile ?passed wb))"
    using hd_dropWhile [of ?passed wb] by (cases "dropWhile ?passed wb = []") auto
  from eq popped front show ?thesis by simp
qed

text \<open>The example: a vehicle at \<open>x = 15\<close> on waypoints 10 apart has passed the waypoints
  0 and 1; waypoint 2 is ahead and stays, and so does waypoint 3 behind it.\<close>

theorem purge_removes_maximal_passed_prefix_witness:
  "purge_passed_waypoints (demo_env straight no_junction 10 []) (demo_vehicle 15 0 30) [0, 1, 2, 3]
     = [2, 3] \<and>
   takeWhile (\<lambda>w. signed_deviation (demo_env straight no_junction 10 []) (demo_vehicle 15 0 30) w \<le> 0)
     [0, 1, 2, 3] = [0, 1] \<and>
   signed_deviation (demo_env straight no_junction 10 []) (demo_vehicle 15 0 30) 0 \<le> 0 \<and>
   signed_deviation (demo_env straight no_junction 10 []) (demo_vehicle 15 0 30) 1 \<le> 0 \<and>
   0 < signed_deviation (demo_env straight no_junction 10 []) (demo_vehicle 15 0 30) 2"
  using purge_removes_maximal_passed_prefix
    [of "demo_env straight no_junction 10 []" "demo_vehicle 15 0 30" "[0, 1, 2, 3]"]
  by (simp add: signed_deviation_def demo_env_def demo_vehicle_def)

section \<open>Resynchronizing\<close>

text \<open>
  C5. The active buffer becomes a copy of the exposed buffer exactly when both are not
  empty and the (road, section, lane) identities of their fronts differ; in every other
  case (one of them empty, or the identities agree) the active buffer is unchanged.
\<close>

theorem synchronize_buffer_exact:
  "(wb \<noteq> [] \<and> cb \<noteq> [] \<and> front_geo_ids env (hd cb) \<noteq> front_geo_ids env (hd wb)
      \<longrightarrow> synchronize_buffer env wb cb = cb) \<and>
   (\<not> (wb \<noteq> [] \<and> cb \<noteq> [] \<and> front_geo_ids env (hd cb) \<noteq> front_geo_ids env (hd wb))
      \<longrightarrow> synchronize_buffer env wb cb = wb)"
  by (auto simp: synchronize_buffer_def front_geo_ids_def)

text \<open>The examples: an exposed buffer on another lane (waypoint 100) replaces the
  active one; one on the same lane does not; an empty buffer on either side does not.\<close>

theorem synchronize_buffer_exact_witness:
  "synchronize_buffer (demo_env straight no_junction 10 []) [0, 1] [100, 101, 102] = [100, 101, 102] \<and>
   synchronize_buffer (demo_env straight no_junction 10 []) [0, 1] [5, 6] = [0, 1] \<and>
   synchronize_buffer (demo_env straight no_junction 10 []) [0, 1] [] = [0, 1] \<and>
   synchronize_buffer (demo_env straight no_junction 10 []) [] [100] = []"
  using synchronize_buffer_exact [of "[0, 1]" "[100, 101, 102]" "demo_env straight no_junction 10 []"]
    synchronize_buffer_exact [of "[0, 1]" "[5, 6]" "demo_env straight no_junction 10 []"]
    synchronize_buffer_exact [of "[0, 1]" "[]" "demo_env straight no_junction 10 []"]
    synchronize_buffer_exact [of "[]" "[100]" "demo_env straight no_junction 10 []"]
  by (simp add: front_geo_ids_def demo_env_def)

section \<open>The best-effort channels of DataSender\<close>

lemma send_planner_other_channels:
  "collision_messenger (send_planner env st) = collision_messenger st"
  "collision_messenger_state (send_planner env st) = collision_messenger_state st"
  "collision_frame_selector (send_planner env st) = collision_frame_selector st"
  "traffic_light_messenger (send_planner env st) = traffic_light_messenger st"
  "traffic_light_messenger_state (send_planner env st) = traffic_light_messenger_state st"
  "traffic_light_frame_selector (send_planner env st) = traffic_light_frame_selector st"
  by (simp_all add: send_planner_def Let_def)

lemma send_collision_other_channel:
  "traffic_light_messenger (send_collision env st) = traffic_light_messenger st"
  "traffic_light_messenger_state (send_collision env st) = traffic_light_messenger_state st"
  "traffic_light_frame_selector (send_collision env st) = traffic_light_frame_selector st"
  by (simp_all add: send_collision_def Let_def)

lemma send_traffic_light_other_channel:
  "collision_messenger (send_traffic_light env st) = collision_messenger st"
  "collision_messenger_state (send_traffic_light env st) = collision_messenger_state st"
  "collision_frame_selector (send_traffic_light env st) = collision_frame_selector st"
  by (simp_all add: send_traffic_light_def Let_def)

lemma send_collision_channel:
  "collision_messenger (send_collision env st) =
     (if GetState env (collision_messenger st) \<noteq> collision_messenger_state st
      then fst (SendData env (collision_messenger st)
                  \<lparr>packet_id = collision_messenger_state st,
                   packet_data = (if collision_frame_selector st then FrameA else FrameB)\<rparr>)
      else collision_messenger st)"
  "collision_messenger_state (send_collision env st) =
     (if GetState env (collision_messenger st) \<noteq> collision_messenger_state st
      then snd (SendData env (collision_messenger st)
                  \<lparr>packet_id = collision_messenger_state st,
                   packet_data = (if collision_frame_selector st then FrameA else FrameB)\<rparr>)
      else collision_messenger_state st)"
  "collision_frame_selector (send_collision env st) =
     (if GetState env (collision_messenger st) \<noteq> collision_messenger_state st
      then \<not> collision_frame_selector st else collision_frame_selector st)"
  by (simp_all add: send_collision_def Let_def)

lemma send_traffic_light_channel:
  "traffic_light_messenger (send_traffic_light env st) =
     (if GetState env (traffic_light_messenger st) \<noteq> traffic_light_messenger_state st
      then fst (SendData env (traffic_light_messenger st)
                  \<lparr>packet_id = traffic_light_messenger_state st,
                   packet_data = (if traffic_light_frame_selector st then FrameA else FrameB)\<rparr>)
      else traffic_light_messenger st)"
  "traffic_light_messenger_state (send_traffic_light env st) =
     (if GetState env (traffic_light_messenger st) \<noteq> traffic_light_messenger_state st
      then snd (SendData env (traffic_light_messenger st)
                  \<lparr>packet_id = traffic_light_messenger_state st,
                   packet_data = (if traffic_light_frame_selector st then FrameA else FrameB)\<rparr>)
      else traffic_light_messenger_state st)"
  "traffic_light_frame_selector (send_traffic_light env st) =
     (if GetState env (traffic_light_messenger st) \<noteq> traffic_light_messenger_state st
      then \<not> traffic_light_frame_selector st else traffic_light_frame_selector st)"
  by (simp_all add: send_traffic_light_def Let_def)

text \<open>
  C7. For the collision channel and for the traffic light channel, \<^verbatim>\<open>DataSender\<close> sends
  the selected frame with the recorded generation, records the generation the channel
  returns and flips the frame selector of the channel when the generation of the
  channel differs from the recorded one; when they are equal the messenger, the
  recorded generation and the selector are all unchanged.
\<close>

theorem DataSender_best_effort_channels:
  "(GetState env (collision_messenger st) \<noteq> collision_messenger_state st \<longrightarrow>
      collision_messenger (DataSender env st) =
        fst (SendData env (collision_messenger st)
               \<lparr>packet_id = collision_messenger_state st,
                packet_data = (if collision_frame_selector st then FrameA else FrameB)\<rparr>) \<and>
      collision_messenger_state (DataSender env st) =
        snd (SendData env (collision_messenger st)
               \<lparr>packet_id = collision_messenger_state st,
                packet_data = (if collision_frame_selector st then FrameA else FrameB)\<rparr>) \<and>
      collision_frame_selector (DataSender env st) = (\<not> collision_frame_selector st)) \<and>
   (GetState env (collision_messenger st) = collision_messenger_state st \<longrightarrow>
      collision_messenger (DataSender env st) = collision_messenger st \<and>
      collision_messenger_state (DataSender env st) = collision_messenger_state st \<and>
      collision_frame_selector (DataSender env st) = collision_frame_selector st) \<and>
   (GetState env (traffic_light_messenger st) \<noteq> traffic_light_messenger_state st \<longrightarrow>
      traffic_light_messenger (DataSender env st) =
        fst (SendData env (traffic_light_messenger st)
               \<lparr>packet_id = traffic_light_messenger_state st,
                packet_data = (if traffic_light_frame_selector st then FrameA else FrameB)\<rparr>) \<and>
      traffic_light_messenger_state (DataSender env st) =
        snd (SendData env (traffic_light_messenger st)
               \<lparr>packet_id = traffic_light_messenger_state st,
                packet_data = (if traffic_light_frame_selector st then FrameA else FrameB)\<rparr>) \<and>
      traffic_light_frame_selector (DataSender env st) = (\<not> traffic_light_frame_selector st)) \<and>
   (GetState env (traffic_light_messenger st) = traffic_light_messenger_state st \<longrightarrow>
      traffic_light_messenger (DataSender env st) = traffic_light_messenger st \<and>
      traffic_light_messenger_state (DataSender env st) = traffic_light_messenger_state st \<and>
      traffic_light_frame_selector (DataSender env st) = traffic_light_frame_selector st)"
  by (simp add: DataSender_def send_planner_other_channels send_collision_other_channel
        send_traffic_light_other_channel send_collision_channel send_traffic_light_channel)

text \<open>The example: the consumers are at generation 1. A stage that recorded 0 sends
  on both channels (the messenger keeps the payload); a stage that recorded 1 sends on
  neither.\<close>

theorem DataSender_best_effort_channels_witness:
  "collision_messenger
     (DataSender (demo_env straight no_junction 10 []) (demo_stage [[]] [[]] 0 (1, []))) = (2, [FrameA]) \<and>
   collision_messenger_state
     (DataSender (demo_env straight no_junction 10 []) (demo_stage [[]] [[]] 0 (1, []))) = 2 \<and>
   collision_frame_selector
     (DataSender (demo_env straight no_junction 10 []) (demo_stage [[]] [[]] 0 (1, []))) = False \<and>
   traffic_light_messenger
     (DataSender (demo_env straight no_junction 10 []) (demo_stage [[]] [[]] 0 (1, []))) = (2, [FrameA]) \<and>
   traffic_light_frame_selector
     (DataSender (demo_env straight no_junction 10 []) (demo_stage [[]] [[]] 0 (1, []))) = False \<and>
   collision_messenger
     (DataSender (demo_env straight no_junction 10 []) (demo_stage [[]] [[]] 1 (1, []))) = (1, []) \<and>
   collision_messenger_state
     (DataSender (demo_env straight no_junction 10 []) (demo_stage [[]] [[]] 1 (1, []))) = 1 \<and>
   collision_frame_selector
     (DataSender (demo_env straight no_junction 10 []) (demo_stage [[]] [[]] 1 (1, []))) = True \<and>
   traffic_light_messenger
     (DataSender (demo_env straight no_junction 10 []) (demo_stage [[]] [[]] 1 (1, []))) = (1, []) \<and>
   traffic_light_frame_selector
     (DataSender (demo_env straight no_junction 10 []) (demo_stage [[]] [[]] 1 (1, []))) = True"
  using DataSender_best_effort_channels
          [of "demo_env straight no_junction 10 []" "demo_stage [[]] [[]] 0 (1, [])"]
        DataSender_best_effort_channels
          [of "demo_env straight no_junction 10 []" "demo_stage [[]] [[]] 1 (1, [])"]
  by (simp add: demo_env_def demo_stage_def)

section \<open>The exposed copy\<close>

text \<open>
  C8. \<^verbatim>\<open>Action\<close> does not change the exposed buffer list: when it returns, the buffer
  list that the collision frame selector does not choose is the one it was before the
  call, for every vehicle index, and the selector itself is unchanged. Every write of
  the loop body goes through \<open>store_buffer\<close>, which updates the chosen list only.
\<close>

theorem Action_leaves_exposed_copy:
  assumes "Action env start_index end_index st = Some (Inr st')"
  shows "collision_frame_selector st' = collision_frame_selector st \<and>
         (if collision_frame_selector st
          then buffer_list_b st' = buffer_list_b st
          else buffer_list_a st' = buffer_list_a st) \<and>
         (\<forall>i. copy_buffer_list st' ! i = copy_buffer_list st ! i)"
  using action_loop_copy [of env start_index end_index st st'] assms
  by (auto simp: Action_def copy_buffer_list_def)

text \<open>The example: two vehicles on the straight road; the active list is \<open>a\<close>. The
  exposed buffer of the first vehicle starts on another lane (waypoint 100), so its
  active buffer is resynchronized from it; the exposed list is the same after the call.\<close>

lemma demo_Action_resync_runs:
  "\<exists>st'. Action (demo_env straight no_junction 10 [demo_vehicle 5 0 30, demo_vehicle 25 0 30]) 0 1
           (demo_stage [[0, 1, 2], []] [[100, 101], [7]] 0 (0, [])) = Some (Inr st')"
  by (simp add: Action_def action_loop.simps demo_simps stage_simps)

theorem Action_leaves_exposed_copy_witness:
  "\<exists>st'. Action (demo_env straight no_junction 10 [demo_vehicle 5 0 30, demo_vehicle 25 0 30]) 0 1
           (demo_stage [[0, 1, 2], []] [[100, 101], [7]] 0 (0, [])) = Some (Inr st') \<and>
         collision_frame_selector st' \<and> buffer_list_b st' = [[100, 101], [7]] \<and>
         copy_buffer_list st' ! 0 = [100, 101]"
proof -
  from demo_Action_resync_runs obtain st' where
    run: "Action (demo_env straight no_junction 10 [demo_vehicle 5 0 30, demo_vehicle 25 0 30]) 0 1
           (demo_stage [[0, 1, 2], []] [[100, 101], [7]] 0 (0, [])) = Some (Inr st')" ..
  from Action_leaves_exposed_copy [OF run]
  have "collision_frame_selector st' \<and> buffer_list_b st' = [[100, 101], [7]] \<and>
        copy_buffer_list st' ! 0 = [100, 101]"
    by (simp add: demo_stage_def copy_buffer_list_def)
  with run show ?thesis by blast
qed

section \<open>Indices of the output walks\<close>

lemma select_target_single: "select_target env velocity [w] = Inr w"
  using select_target_spec [of "[w]" env velocity] by simp

lemma look_ahead_single: "look_ahead env velocity [w] = Inr (w, 0)"
  using look_ahead_spec [of "[w]" env velocity] by simp

text \<open>
  C10. On a buffer that is not empty the target walk, the look-ahead walk and the
  junction scan raise no \<^verbatim>\<open>std::out_of_range\<close>: each returns a value. The look-ahead
  index is below the size of the buffer and the look-ahead point is the entry at that
  index, so the read \<^verbatim>\<open>waypoint_buffer.at(look_ahead_index)\<close> of the traffic light entry
  succeeds. On a buffer of one waypoint the target and the look-ahead point are that
  waypoint, at index 0.
\<close>

theorem output_walk_indices_in_range:
  assumes "wb \<noteq> []"
  shows "(\<exists>k<length wb. select_target env (vehicle_velocity v) wb = Inr (wb ! k)) \<and>
         (\<exists>k<length wb.
            look_ahead env (vehicle_velocity v) wb = Inr (wb ! k, k) \<and>
            at_index wb k = Inr (wb ! k) \<and>
            (\<exists>flag. approaching_junction env v wb (wb ! k) k = Inr flag) \<and>
            (\<exists>d flag. generate_output env v wb = Inr (d, flag, k))) \<and>
         select_target env (vehicle_velocity v) [w] = Inr w \<and>
         look_ahead env (vehicle_velocity v) [w] = Inr (w, 0)"
proof -
  from select_target_spec [OF assms, of env "vehicle_velocity v"]
  obtain t where t: "t < length wb" "select_target env (vehicle_velocity v) wb = Inr (wb ! t)"
    by blast
  from look_ahead_spec [OF assms, of env "vehicle_velocity v"]
  obtain k where k: "k < length wb" "look_ahead env (vehicle_velocity v) wb = Inr (wb ! k, k)"
    by blast
  from approaching_junction_in_range [OF k(1), of env v "wb ! k"]
  obtain flag where f: "approaching_junction env v wb (wb ! k) k = Inr flag"
    by blast
  from t k f
  have "generate_output env v wb = Inr (output_deviation env v (wb ! t), flag, k)"
    by (simp add: generate_output_def)
  with t k f show ?thesis
    by (auto simp: at_index_def select_target_single look_ahead_single)
qed

text \<open>The example: the buffer \<open>[1, 2, 3, 4]\<close> on the straight road, and the buffer \<open>[4]\<close>.\<close>

theorem output_walk_indices_in_range_witness:
  "select_target (demo_env straight no_junction 10 []) 0 [1, 2, 3, 4] = Inr 2 \<and>
   look_ahead (demo_env straight no_junction 10 []) 0 [1, 2, 3, 4] = Inr (2, 1) \<and>
   at_index [1, 2, 3, 4 :: nat] 1 = Inr 2 \<and>
   generate_output (demo_env straight no_junction 10 []) (demo_vehicle 5 0 30) [1, 2, 3, 4]
     = Inr (0, False, 1) \<and>
   select_target (demo_env straight no_junction 10 []) 0 [4] = Inr 4 \<and>
   look_ahead (demo_env straight no_junction 10 []) 0 [4] = Inr (4, 0)"
  using output_walk_indices_in_range
    [of "[1, 2, 3, 4]" "demo_env straight no_junction 10 []" "demo_vehicle 5 0 30" 4]
  by (simp add: demo_simps)

section \<open>Junction classification\<close>

text \<open>
  C6. The flag is false unless the look-ahead point is in a junction and the front of
  the buffer is not. In that case, when the speed limit of the vehicle is above
  \<^verbatim>\<open>HIGHWAY_SPEED\<close>, the flag is true exactly when a buffer entry at an index below the
  look-ahead index has more than one successor; when the speed limit is at or below
  \<^verbatim>\<open>HIGHWAY_SPEED\<close> the flag is true. \<^verbatim>\<open>HIGHWAY_SPEED\<close> is the binary32 value of
  \<^verbatim>\<open>50 / 3.6f\<close>, which is \<open>3640889 / 262144\<close> (13.8888893...): 50 km/h, and 13.89 to two
  decimals, the figure of the claim.
\<close>

theorem approaching_junction_classification:
  assumes "look_ahead_index < length wb"
  shows "approaching_junction env v wb look_ahead_point look_ahead_index =
           Inr (CheckJunction env look_ahead_point \<and> \<not> CheckJunction env (hd wb) \<and>
                (HIGHWAY_SPEED < speed_limit v \<longrightarrow>
                   (\<exists>j<look_ahead_index. 1 < length (GetNextWaypoint env (wb ! j))))) \<and>
         HIGHWAY_SPEED = 3640889 / 262144 \<and>
         \<bar>HIGHWAY_SPEED - 13.89\<bar> < 0.005"
  using approaching_junction_in_range [OF assms, of env v look_ahead_point]
  by (simp add: HIGHWAY_SPEED_value)

text \<open>The examples are the scenarios of the specification: the front is not in a
  junction, the look-ahead point (waypoint 2, index 2) is, the speed limit is 30. On
  the straight road the flag is false; on the road that forks at waypoint 1 it is true.
  With a speed limit of 10, and with a speed limit equal to \<^verbatim>\<open>HIGHWAY_SPEED\<close>, it is true
  on the straight road. With no junction ahead it is false.\<close>

theorem approaching_junction_classification_witness:
  "approaching_junction (demo_env straight junction_at_2 1 []) (demo_vehicle 0 0 30) [0, 1, 2] 2 2
     = Inr False \<and>
   approaching_junction (demo_env forked junction_at_2 1 []) (demo_vehicle 0 0 30) [0, 1, 2] 2 2
     = Inr True \<and>
   approaching_junction (demo_env straight junction_at_2 1 []) (demo_vehicle 0 0 10) [0, 1, 2] 2 2
     = Inr True \<and>
   approaching_junction (demo_env straight junction_at_2 1 [])
     (demo_vehicle 0 0 (3640889 / 262144)) [0, 1, 2] 2 2 = Inr True \<and>
   approaching_junction (demo_env straight no_junction 1 []) (demo_vehicle 0 0 10) [0, 1, 2] 2 2
     = Inr False"
proof -
  have index: "2 < length [0, 1, 2 :: nat]"
    by simp
  have forked_branch: "\<exists>j<2. 1 < length (forked ([0, 1, 2] ! j))"
    by (intro exI [of _ 1]) (simp add: forked_def)
  have straight_no_branch: "\<not> (\<exists>j<2. 1 < length (straight ([0, 1, 2] ! j)))"
    by (simp add: straight_def)
  have limits: "HIGHWAY_SPEED < speed_limit (demo_vehicle 0 0 30)"
    "\<not> HIGHWAY_SPEED < speed_limit (demo_vehicle 0 0 10)"
    "\<not> HIGHWAY_SPEED < speed_limit (demo_vehicle 0 0 (3640889 / 262144))"
    by (simp_all add: demo_vehicle_def HIGHWAY_SPEED_value)
  have fronts: "junction_at_2 2" "\<not> junction_at_2 (hd [0, 1, 2])" "\<not> no_junction 2"
    by (simp_all add: junction_at_2_def no_junction_def)
  from approaching_junction_classification
         [OF index, where env = "demo_env straight junction_at_2 1 []"
            and v = "demo_vehicle 0 0 30" and look_ahead_point = 2]
       limits fronts straight_no_branch
  have highway_straight:
    "approaching_junction (demo_env straight junction_at_2 1 []) (demo_vehicle 0 0 30)
       [0, 1, 2] 2 2 = Inr False"
    by (simp add: demo_env_fields)
  from approaching_junction_classification
         [OF index, where env = "demo_env forked junction_at_2 1 []"
            and v = "demo_vehicle 0 0 30" and look_ahead_point = 2]
       limits fronts forked_branch
  have highway_forked:
    "approaching_junction (demo_env forked junction_at_2 1 []) (demo_vehicle 0 0 30)
       [0, 1, 2] 2 2 = Inr True"
    by (simp add: demo_env_fields)
  from approaching_junction_classification
         [OF index, where env = "demo_env straight junction_at_2 1 []"
            and v = "demo_vehicle 0 0 10" and look_ahead_point = 2]
       limits fronts
  have town:
    "approaching_junction (demo_env straight junction_at_2 1 []) (demo_vehicle 0 0 10)
       [0, 1, 2] 2 2 = Inr True"
    by (simp add: demo_env_fields)
  from approaching_junction_classification
         [OF index, where env = "demo_env straight junction_at_2 1 []"
            and v = "demo_vehicle 0 0 (3640889 / 262144)" and look_ahead_point = 2]
       limits fronts
  have at_threshold:
    "approaching_junction (demo_env straight junction_at_2 1 [])
       (demo_vehicle 0 0 (3640889 / 262144)) [0, 1, 2] 2 2 = Inr True"
    by (simp add: demo_env_fields)
  from approaching_junction_classification
         [OF index, where env = "demo_env straight no_junction 1 []"
            and v = "demo_vehicle 0 0 10" and look_ahead_point = 2]
       fronts
  have no_junction_ahead:
    "approaching_junction (demo_env straight no_junction 1 []) (demo_vehicle 0 0 10)
       [0, 1, 2] 2 2 = Inr False"
    by (simp add: demo_env_fields)
  from highway_straight highway_forked town at_threshold no_junction_ahead
  show ?thesis by blast
qed

section \<open>Populating the buffer\<close>

lemma populate_buffer_stop:
  assumes "wb \<noteq> []" "\<not> DistanceSquared env (last wb) (hd wb) \<le> h ^ 2"
  shows "populate_buffer env h wb rc = Some (Inr (wb, rc))"
  using assms by (subst populate_buffer.simps) simp

lemma populate_buffer_step:
  assumes "wb \<noteq> []" "DistanceSquared env (last wb) (hd wb) \<le> h ^ 2"
    and "at_index (GetNextWaypoint env (last wb))
           (fst (path_selection env (GetNextWaypoint env (last wb)) rc)) = Inr w"
  shows "populate_buffer env h wb rc =
           populate_buffer env h (wb @ [w])
             (snd (path_selection env (GetNextWaypoint env (last wb)) rc))"
  using assms by (subst populate_buffer.simps) (simp add: Let_def)

lemma populate_buffer_dead_end:
  assumes "wb \<noteq> []" "DistanceSquared env (last wb) (hd wb) \<le> h ^ 2"
    and "GetNextWaypoint env (last wb) = []"
  shows "populate_buffer env h wb rc = Some (Inl OutOfRange)"
  using assms
  by (subst populate_buffer.simps) (simp add: Let_def path_selection_def at_index_def)

lemma path_selection_in_range:
  assumes "next_waypoints \<noteq> []"
  shows "fst (path_selection env next_waypoints rc) < length next_waypoints"
  using assms by (simp add: path_selection_def)

lemma populate_buffer_result_beyond:
  assumes "populate_buffer env h wb rc = Some (Inr (wb', rc'))"
  shows "\<not> DistanceSquared env (last wb') (hd wb') \<le> h ^ 2"
proof -
  have "\<forall>wb' rc'. r = Inr (wb', rc') \<longrightarrow> \<not> DistanceSquared env (last wb') (hd wb') \<le> h ^ 2"
    if "populate_buffer env h wb rc = Some r" for r
    using that by (induction rule: populate_buffer_induct) auto
  with assms show ?thesis by blast
qed

lemma populate_buffer_no_error:
  assumes run: "populate_buffer env h wb rc = Some r"
    and succ: "\<forall>w. GetNextWaypoint env w \<noteq> []"
    and ne: "wb \<noteq> []"
  shows "\<exists>wb' rc'. r = Inr (wb', rc')"
  using run ne
proof (induction rule: populate_buffer_induct)
  case (empty rc)
  then show ?case by simp
next
  case (stop wb rc)
  then show ?case by simp
next
  case (fail wb rc e)
  from succ have "GetNextWaypoint env (last wb) \<noteq> []" by simp
  from path_selection_in_range [OF this, of env rc] fail(3) show ?case
    by (simp add: at_index_def)
next
  case (step wb rc w r)
  then show ?case by simp
qed

lemma horizon_size_8_7: "horizon_size (9122611 / 1048576) = 3420979 / 131072"
  using binary32_binade [of 4 "3 * (9122611 / 1048576)"]
  by (simp add: horizon_size_def WAYPOINT_TIME_HORIZON_def MINIMUM_HORIZON_LENGTH_def
        round_half_even_def power_int_minus)

text \<open>
  C2, as the code has it. \<open>horizon_size\<close> is the larger of 25 and the float product of 3
  and the velocity (the real product rounded to binary32). The loop appends one
  successor of the back of the buffer while the squared distance from the back to the
  front is at most \<open>horizon_size\<^sup>2\<close> (the comparison of line 151 is \<^verbatim>\<open><=\<close>): with a squared
  distance below or equal to the bound and a successor to select, the run goes on from
  the buffer with that successor appended; with a squared distance above the bound the
  buffer is returned as it is; and a buffer the loop returns has a squared distance
  above the bound.
\<close>

theorem populate_buffer_appends_while_within_horizon:
  assumes "wb \<noteq> []"
  shows "horizon_size velocity = max (binary32 (3 * velocity)) 25 \<and>
         (DistanceSquared env (last wb) (hd wb) \<le> (horizon_size velocity) ^ 2 \<longrightarrow>
            (\<forall>w. at_index (GetNextWaypoint env (last wb))
                    (fst (path_selection env (GetNextWaypoint env (last wb)) rc)) = Inr w \<longrightarrow>
                 w \<in> set (GetNextWaypoint env (last wb)) \<and>
                 populate_buffer env (horizon_size velocity) wb rc =
                   populate_buffer env (horizon_size velocity) (wb @ [w])
                     (snd (path_selection env (GetNextWaypoint env (last wb)) rc)))) \<and>
         (\<not> DistanceSquared env (last wb) (hd wb) \<le> (horizon_size velocity) ^ 2 \<longrightarrow>
            populate_buffer env (horizon_size velocity) wb rc = Some (Inr (wb, rc))) \<and>
         (\<forall>wb' rc'. populate_buffer env (horizon_size velocity) wb rc = Some (Inr (wb', rc')) \<longrightarrow>
            (\<exists>ext. wb' = wb @ ext) \<and>
            \<not> DistanceSquared env (last wb') (hd wb') \<le> (horizon_size velocity) ^ 2)"
proof -
  have size: "horizon_size velocity = max (binary32 (3 * velocity)) 25"
    by (simp add: horizon_size_def WAYPOINT_TIME_HORIZON_def MINIMUM_HORIZON_LENGTH_def)
  have member: "w \<in> set xs" if "at_index xs k = Inr w" for xs :: "waypoint list" and k w
    using that by (auto simp: at_index_def split: if_splits)
  have step: "populate_buffer env (horizon_size velocity) wb rc =
                populate_buffer env (horizon_size velocity) (wb @ [w])
                  (snd (path_selection env (GetNextWaypoint env (last wb)) rc))"
    if "DistanceSquared env (last wb) (hd wb) \<le> (horizon_size velocity) ^ 2"
      and "at_index (GetNextWaypoint env (last wb))
             (fst (path_selection env (GetNextWaypoint env (last wb)) rc)) = Inr w" for w
    using populate_buffer_step [OF assms that] .
  have stop: "populate_buffer env (horizon_size velocity) wb rc = Some (Inr (wb, rc))"
    if "\<not> DistanceSquared env (last wb) (hd wb) \<le> (horizon_size velocity) ^ 2"
    using populate_buffer_stop [OF assms that] .
  have result: "(\<exists>ext. wb' = wb @ ext) \<and>
                \<not> DistanceSquared env (last wb') (hd wb') \<le> (horizon_size velocity) ^ 2"
    if "populate_buffer env (horizon_size velocity) wb rc = Some (Inr (wb', rc'))" for wb' rc'
    using populate_buffer_extends [OF that] populate_buffer_result_beyond [OF that] by simp
  from size member step stop result show ?thesis by blast
qed

text \<open>The examples. Waypoints 25 apart and a vehicle at rest (\<open>horizon_size = 25\<close>): the
  run from \<open>[0]\<close> goes on from \<open>[0, 1]\<close> and returns \<open>[0, 1, 2]\<close>. A velocity of \<^verbatim>\<open>8.7f\<close>
  (\<open>9122611 / 1048576\<close>): the float product is \<open>3420979 / 131072\<close> (26.0999985), below the
  real product (26.0999994); with waypoints 26.099999 apart the squared distance of
  \<open>[0, 1]\<close> is above the square of the first and below the square of the second, and
  the run stops at \<open>[0, 1]\<close>.\<close>

theorem populate_buffer_appends_while_within_horizon_witness:
  "horizon_size 0 = 25 \<and>
   populate_buffer (demo_env straight no_junction 25 []) (horizon_size 0) [0] 0 =
     populate_buffer (demo_env straight no_junction 25 []) (horizon_size 0) [0, 1] 0 \<and>
   populate_buffer (demo_env straight no_junction 25 []) (horizon_size 0) [0, 1, 2] 0 =
     Some (Inr ([0, 1, 2], 0)) \<and>
   populate_buffer (demo_env straight no_junction 25 []) (horizon_size 0) [0] 0 =
     Some (Inr ([0, 1, 2], 0)) \<and>
   \<not> DistanceSquared (demo_env straight no_junction 25 []) (last [0, 1, 2]) (hd [0, 1, 2])
       \<le> (horizon_size 0) ^ 2 \<and>
   horizon_size (9122611 / 1048576) = 3420979 / 131072 \<and>
   DistanceSquared (demo_env straight no_junction 26.099999 []) (last [0, 1]) (hd [0, 1])
     \<le> (3 * (9122611 / 1048576)) ^ 2 \<and>
   populate_buffer (demo_env straight no_junction 26.099999 []) (horizon_size (9122611 / 1048576))
     [0, 1] 0 = Some (Inr ([0, 1], 0))"
proof -
  let ?env = "demo_env straight no_junction 25 []"
  let ?far = "demo_env straight no_junction 26.099999 []"
  have size: "horizon_size 0 = 25"
    by (rule horizon_size_at_rest)
  have run: "populate_buffer ?env (horizon_size 0) [0] 0 = Some (Inr ([0, 1, 2], 0))"
    by (simp add: demo_simps)
  have within: "DistanceSquared ?env (last [0]) (hd [0]) \<le> (horizon_size 0) ^ 2"
    by (simp add: demo_env_fields size)
  have selected: "at_index (GetNextWaypoint ?env (last [0]))
                    (fst (path_selection ?env (GetNextWaypoint ?env (last [0])) 0)) = Inr 1"
    by (simp add: demo_env_fields straight_def path_selection_def at_index_def)
  have count: "snd (path_selection ?env (GetNextWaypoint ?env (last [0])) 0) = 0"
    by (simp add: demo_env_fields straight_def path_selection_def)
  have beyond: "\<not> DistanceSquared ?env (last [0, 1, 2]) (hd [0, 1, 2]) \<le> (horizon_size 0) ^ 2"
    by (simp add: demo_env_fields size)
  have ne: "[0 :: nat] \<noteq> []" "[0, 1, 2 :: nat] \<noteq> []" "[0, 1 :: nat] \<noteq> []"
    by simp_all
  from populate_buffer_appends_while_within_horizon
         [OF ne(1), where velocity = 0 and env = ?env and rc = 0] within selected
  have "populate_buffer ?env (horizon_size 0) [0] 0 =
        populate_buffer ?env (horizon_size 0) ([0] @ [1])
          (snd (path_selection ?env (GetNextWaypoint ?env (last [0])) 0))"
    by blast
  with count have step: "populate_buffer ?env (horizon_size 0) [0] 0 =
              populate_buffer ?env (horizon_size 0) [0, 1] 0"
    by simp
  from populate_buffer_appends_while_within_horizon
         [OF ne(2), where velocity = 0 and env = ?env and rc = 0] beyond
  have stop: "populate_buffer ?env (horizon_size 0) [0, 1, 2] 0 = Some (Inr ([0, 1, 2], 0))"
    by blast
  have rounded: "horizon_size (9122611 / 1048576) = 3420979 / 131072"
    by (rule horizon_size_8_7)
  have exact: "DistanceSquared ?far (last [0, 1]) (hd [0, 1]) \<le> (3 * (9122611 / 1048576)) ^ 2"
    by (simp add: demo_env_fields)
  have above: "\<not> DistanceSquared ?far (last [0, 1]) (hd [0, 1])
                   \<le> (horizon_size (9122611 / 1048576)) ^ 2"
    by (simp add: demo_env_fields rounded)
  from populate_buffer_appends_while_within_horizon
         [OF ne(3), where velocity = "9122611 / 1048576" and env = ?far and rc = 0] above
  have float_stop: "populate_buffer ?far (horizon_size (9122611 / 1048576)) [0, 1] 0
                      = Some (Inr ([0, 1], 0))"
    by blast
  from size step stop run beyond rounded exact float_stop show ?thesis by blast
qed

text \<open>
  C2 as stated fails at equality. The buffer \<open>[0, 1]\<close> has a squared distance from back
  to front of \<open>625 = horizon_size\<^sup>2\<close>; the claim has no further waypoint appended, the code
  appends waypoint 2.
\<close>

theorem populate_buffer_equal_distance_counterexample:
  "DistanceSquared (demo_env straight no_junction 25 []) (last [0, 1]) (hd [0, 1])
     = (horizon_size 0) ^ 2 \<and>
   populate_buffer (demo_env straight no_junction 25 []) (horizon_size 0) [0, 1] 0
     = Some (Inr ([0, 1, 2], 0)) \<and>
   populate_buffer (demo_env straight no_junction 25 []) (horizon_size 0) [0, 1] 0
     \<noteq> Some (Inr ([0, 1], 0))"
  by (simp add: demo_simps)

section \<open>Topology errors\<close>

text \<open>
  C9, as the code has it. When the back of the buffer has no successor while the
  squared distance from back to front is at most \<open>horizon\<^sup>2\<close>, the loop ends with the error
  of \<^verbatim>\<open>next_waypoints.at(0)\<close>. When every waypoint has a successor the loop never ends
  with an error: if it returns, it returns a grown buffer. It need not return: the
  loop has no bound of its own.
\<close>

theorem populate_buffer_topology_error:
  assumes "wb \<noteq> []"
  shows "(DistanceSquared env (last wb) (hd wb) \<le> horizon ^ 2 \<and>
          GetNextWaypoint env (last wb) = [] \<longrightarrow>
            populate_buffer env horizon wb rc = Some (Inl OutOfRange)) \<and>
         ((\<forall>w. GetNextWaypoint env w \<noteq> []) \<longrightarrow>
            (\<forall>e. populate_buffer env horizon wb rc \<noteq> Some (Inl e)))"
proof -
  have "populate_buffer env horizon wb rc \<noteq> Some (Inl e)"
    if "\<forall>w. GetNextWaypoint env w \<noteq> []" for e
  proof
    assume "populate_buffer env horizon wb rc = Some (Inl e)"
    from populate_buffer_no_error [OF this that assms] show False by simp
  qed
  with assms show ?thesis
    by (auto simp: populate_buffer_dead_end)
qed

text \<open>The examples: the road that ends at waypoint 2, inside the horizon of a vehicle
  at rest: populating fails and so does the vehicle; the straight road: populating
  returns a buffer.\<close>

theorem populate_buffer_topology_error_witness:
  "populate_buffer (demo_env dead_end no_junction 10 []) 25 [0, 1, 2] 0 = Some (Inl OutOfRange) \<and>
   populate_buffer (demo_env dead_end no_junction 10 []) 25 [0] 0 = Some (Inl OutOfRange) \<and>
   process_vehicle (demo_env dead_end no_junction 10 [demo_vehicle 5 0 30]) 0
     (demo_stage [[0, 1, 2]] [[]] 0 (0, [])) = Some (Inl OutOfRange) \<and>
   populate_buffer (demo_env straight no_junction 10 []) 25 [0] 0 = Some (Inr ([0, 1, 2, 3], 0)) \<and>
   populate_buffer (demo_env straight no_junction 10 []) 25 [0] 0 \<noteq> Some (Inl OutOfRange)"
proof -
  let ?dead = "demo_env dead_end no_junction 10 []"
  let ?road = "demo_env straight no_junction 10 []"
  have within: "DistanceSquared ?dead (last [0, 1, 2]) (hd [0, 1, 2]) \<le> 25 ^ 2"
    by (simp add: demo_env_fields)
  have no_successor: "GetNextWaypoint ?dead (last [0, 1, 2]) = []"
    by (simp add: demo_env_fields dead_end_def)
  have ne: "[0, 1, 2 :: nat] \<noteq> []" "[0 :: nat] \<noteq> []"
    by simp_all
  from populate_buffer_topology_error
         [OF ne(1), where env = ?dead and horizon = 25 and rc = 0] within no_successor
  have at_end: "populate_buffer ?dead 25 [0, 1, 2] 0 = Some (Inl OutOfRange)"
    by blast
  have from_start: "populate_buffer ?dead 25 [0] 0 = Some (Inl OutOfRange)"
    by (simp add: demo_simps)
  have vehicle: "process_vehicle (demo_env dead_end no_junction 10 [demo_vehicle 5 0 30]) 0
     (demo_stage [[0, 1, 2]] [[]] 0 (0, [])) = Some (Inl OutOfRange)"
    by (simp add: demo_simps stage_simps)
  have successors: "\<forall>w. GetNextWaypoint ?road w \<noteq> []"
    by (simp add: demo_env_fields straight_def)
  from populate_buffer_topology_error
         [OF ne(2), where env = ?road and horizon = 25 and rc = 0] successors
  have no_error: "populate_buffer ?road 25 [0] 0 \<noteq> Some (Inl OutOfRange)"
    by blast
  have straight_run: "populate_buffer ?road 25 [0] 0 = Some (Inr ([0, 1, 2, 3], 0))"
    by (simp add: demo_simps)
  from at_end from_start vehicle straight_run no_error show ?thesis by blast
qed

text \<open>On the world of the waypoint that is its own successor, a run that starts from a
  buffer of that waypoint alone does not return.\<close>

lemma self_loop_never_returns:
  assumes "populate_buffer (demo_env self_loop no_junction 10 []) h wb rc = Some r"
  shows "set wb \<subseteq> {0} \<longrightarrow> wb = []"
  using assms
proof (induction rule: populate_buffer_induct)
  case (empty rc)
  then show ?case by simp
next
  case (stop wb rc)
  show ?case
  proof
    assume zero: "set wb \<subseteq> {0}"
    with stop(1) have "last wb = 0" "hd wb = 0"
      by (metis last_in_set subsetD singletonD, metis hd_in_set subsetD singletonD)
    with stop(2) show "wb = []" by (simp add: demo_env_fields)
  qed
next
  case (fail wb rc e)
  then show ?case by (simp add: demo_env_fields self_loop_def path_selection_def at_index_def)
next
  case (step wb rc w r)
  show ?case
  proof
    assume zero: "set wb \<subseteq> {0}"
    from step(3) have "w = last wb"
      by (simp add: demo_env_fields self_loop_def path_selection_def at_index_def)
    moreover from zero step(1) have "last wb = 0"
      by (metis last_in_set subsetD singletonD)
    ultimately have "set (wb @ [w]) \<subseteq> {0}"
      using zero by simp
    with step.IH show "wb = []" by simp
  qed
qed

text \<open>
  C9 as stated fails where it says that growth always succeeds. The waypoint that is its
  own successor has a successor, and every waypoint of that world has one; the squared
  distance from back to front stays 0, and the loop never returns (the program appends
  until memory runs out).
\<close>

theorem populate_buffer_self_loop_counterexample:
  "(\<forall>w. GetNextWaypoint (demo_env self_loop no_junction 10 []) w \<noteq> []) \<and>
   populate_buffer (demo_env self_loop no_junction 10 []) (horizon_size 0) [0] 0 = None"
proof -
  have "populate_buffer (demo_env self_loop no_junction 10 []) (horizon_size 0) [0] 0 = None"
  proof (cases "populate_buffer (demo_env self_loop no_junction 10 []) (horizon_size 0) [0] 0")
    case None
    then show ?thesis .
  next
    case (Some r)
    from self_loop_never_returns [OF this] show ?thesis by simp
  qed
  then show ?thesis by (simp add: demo_env_fields self_loop_def)
qed

section \<open>Target selection\<close>

lemma target_point_distance_at_rest: "target_point_distance 0 = 2"
  by (simp add: target_point_distance_def TARGET_WAYPOINT_HORIZON_LENGTH_def)

text \<open>
  C4, as the code has it. With \<open>target_point_distance = max \<lceil>velocity * 0.5\<rceil> 2\<close> (2 for a
  vehicle at rest), the walk tests the candidate it holds and then moves to the next
  entry, so it stops on the first buffer entry whose squared distance from the front is
  not below \<open>target_point_distance\<^sup>2\<close>: the target is the entry at the least index \<open>k\<close>
  such that every entry before \<open>k\<close> is below the bound and the entry at \<open>k\<close> is not, or the
  last entry of the buffer when every entry before it is below the bound.
\<close>

theorem select_target_first_at_or_beyond_threshold:
  assumes "wb \<noteq> []"
  shows "target_point_distance velocity = max (of_int \<lceil>velocity * 0.5\<rceil>) 2 \<and>
         target_point_distance 0 = 2 \<and>
         (\<exists>k<length wb.
            select_target env velocity wb = Inr (wb ! k) \<and>
            (\<forall>j<k. DistanceSquared env (hd wb) (wb ! j) < (target_point_distance velocity) ^ 2) \<and>
            (k = length wb - 1 \<or>
             \<not> DistanceSquared env (hd wb) (wb ! k) < (target_point_distance velocity) ^ 2))"
  using select_target_spec [OF assms, of env velocity] target_point_distance_at_rest
  by (simp add: target_point_distance_def TARGET_WAYPOINT_TIME_HORIZON_def
        TARGET_WAYPOINT_HORIZON_LENGTH_def)

text \<open>The example: waypoints 1 apart, a vehicle at rest. The entries 0 and 1 are
  below the bound 4, the entry 2 (squared distance 4) is the first that is not, and it
  is the target.\<close>

theorem select_target_first_at_or_beyond_threshold_witness:
  "target_point_distance 0 = 2 \<and>
   select_target (demo_env straight no_junction 1 []) 0 [0, 1, 2, 3] = Inr 2 \<and>
   DistanceSquared (demo_env straight no_junction 1 []) (hd [0, 1, 2, 3]) 1
     < (target_point_distance 0) ^ 2 \<and>
   \<not> DistanceSquared (demo_env straight no_junction 1 []) (hd [0, 1, 2, 3]) 2
     < (target_point_distance 0) ^ 2"
proof -
  let ?env = "demo_env straight no_junction 1 []"
  have ne: "[0, 1, 2, 3 :: nat] \<noteq> []" by simp
  have run: "select_target ?env 0 [0, 1, 2, 3] = Inr 2"
    by (simp add: demo_simps)
  from select_target_first_at_or_beyond_threshold [OF ne, where velocity = 0 and env = ?env]
  have "target_point_distance 0 = 2" by blast
  with run show ?thesis by (simp add: demo_env_fields)
qed

text \<open>
  C4 as stated fails: the selected target is not the last entry below the bound. On
  waypoints 10 apart and a vehicle at rest the bound is 4; the front (squared distance
  0) is the only entry below it, and the walk selects waypoint 1, whose squared
  distance is 100.
\<close>

theorem select_target_last_below_threshold_counterexample:
  "select_target (demo_env straight no_junction 10 []) 0 [0, 1, 2, 3] = Inr 1 \<and>
   (target_point_distance 0) ^ 2 = 4 \<and>
   DistanceSquared (demo_env straight no_junction 10 []) (hd [0, 1, 2, 3]) 0 = 0 \<and>
   DistanceSquared (demo_env straight no_junction 10 []) (hd [0, 1, 2, 3]) 1 = 100 \<and>
   DistanceSquared (demo_env straight no_junction 10 []) (hd [0, 1, 2, 3]) 2 = 400 \<and>
   DistanceSquared (demo_env straight no_junction 10 []) (hd [0, 1, 2, 3]) 3 = 900 \<and>
   last_entry_below_threshold (demo_env straight no_junction 10 []) 0 [0, 1, 2, 3] = 0"
  by (simp add: demo_simps last_entry_below_threshold_def)

end
